theory Spec2Isabelle
  imports Complex_Main "HOL-Library.Word" "HOL-Library.Char_ord" "HOL-Library.List_Lexorder"
begin

unbundle bit_operations_syntax

section \<open>Bytes and the repetition code (watermark service)\<close>

type_synonym byte = "8 word"
type_synonym u32 = "32 word"

definition REPETITION_FACTOR :: nat where
  "REPETITION_FACTOR = 3"

text \<open>\<^verbatim>\<open>checksum32\<close>: the running sum is truncated to an unsigned 32-bit value
  (\<^verbatim>\<open>>>> 0\<close>) after every addition.\<close>

definition checksum32 :: "byte list \<Rightarrow> u32" where
  "checksum32 bytes = foldl (\<lambda>sum b. sum + ucast b) 0 bytes"

text \<open>\<^verbatim>\<open>withRepetition\<close>: output position \<open>i * 3 + r\<close> holds input byte \<open>i\<close>,
  for \<open>r = 0, 1, 2\<close>.\<close>

fun withRepetition :: "byte list \<Rightarrow> byte list" where
  "withRepetition [] = []"
| "withRepetition (b # bs) = replicate REPETITION_FACTOR b @ withRepetition bs"

text \<open>The \<^verbatim>\<open>Map<number, number>\<close> of \<^verbatim>\<open>majorityVote\<close>, as an association list in
  insertion order (the order in which \<^verbatim>\<open>forEach\<close> visits it). Setting a key that is
  present keeps its position.\<close>

fun counts_bump :: "(byte \<times> nat) list \<Rightarrow> byte \<Rightarrow> (byte \<times> nat) list" where
  "counts_bump [] b = [(b, 1)]"
| "counts_bump ((k, c) # m) b =
     (if k = b then (k, c + 1) # m else (k, c) # counts_bump m b)"

definition best_step :: "byte option \<times> nat \<Rightarrow> byte \<times> nat \<Rightarrow> byte option \<times> nat" where
  "best_step best kc =
     (case best of (bestValue, bestCount) \<Rightarrow>
        (case kc of (v, count) \<Rightarrow>
           if count > bestCount then (Some v, count) else (bestValue, bestCount)))"

text \<open>\<^verbatim>\<open>majorityVote\<close>: \<open>bestValue\<close> starts as \<open>chunk[0]\<close> (undefined on an empty
  chunk, here \<open>None\<close>) and \<open>bestCount\<close> as 0; a later value replaces the best one only
  with a strictly larger count.\<close>

definition majorityVote :: "byte list \<Rightarrow> byte option \<times> nat" where
  "majorityVote chunk =
     (let counts = foldl counts_bump [] chunk;
          best = foldl best_step (case chunk of [] \<Rightarrow> None | b # _ \<Rightarrow> Some b, 0) counts
      in (fst best, length chunk - snd best))"

text \<open>Storing into a \<^verbatim>\<open>Uint8Array\<close>: \<^verbatim>\<open>undefined\<close> is stored as 0.\<close>

definition to_uint8 :: "byte option \<Rightarrow> byte" where
  "to_uint8 v = (case v of None \<Rightarrow> 0 | Some b \<Rightarrow> b)"

text \<open>The loop of \<^verbatim>\<open>recoverRepetition\<close>: consecutive chunks of three bytes while a
  whole chunk is left (\<open>i < usableLength\<close>); trailing bytes are ignored.\<close>

fun recover_chunks :: "byte list \<Rightarrow> byte list \<times> nat" where
  "recover_chunks (a # b # c # rest) =
     (case majorityVote [a, b, c] of (v, chunkErrors) \<Rightarrow>
        (case recover_chunks rest of (decoded, mismatches) \<Rightarrow>
           (to_uint8 v # decoded, chunkErrors + mismatches)))"
| "recover_chunks _ = ([], 0)"

definition recoverRepetition :: "byte list \<Rightarrow> byte list \<times> nat" where
  "recoverRepetition data = recover_chunks data"

section \<open>Canvas and the LSB writer\<close>

text \<open>A canvas: its dimensions, the RGBA bytes that \<^verbatim>\<open>getImageData\<close> returns for the
  whole area (raster order, four bytes per pixel) and whether \<^verbatim>\<open>getContext('2d')\<close>
  yields a context.\<close>

record canvas =
  cv_width :: nat
  cv_height :: nat
  cv_data :: "byte list"
  cv_ctx :: bool

definition canvas_wf :: "canvas \<Rightarrow> bool" where
  "canvas_wf c \<longleftrightarrow> length (cv_data c) = 4 * cv_width c * cv_height c"

datatype error =
    ContextUnavailable
  | PayloadExceedsCapacity nat nat
  | TypeError
  | ReferenceError
  | ExternalFailure string

text \<open>Reading a typed array: an index out of range reads \<^verbatim>\<open>undefined\<close>, which the
  bit operators treat as 0.\<close>

definition byte_at :: "byte list \<Rightarrow> nat \<Rightarrow> byte" where
  "byte_at bytes k = (if k < length bytes then bytes ! k else 0)"

text \<open>The loop of \<^verbatim>\<open>embedBytesAsLsb\<close> over the remaining image bytes: \<open>i\<close> is the
  index of the head of the list in the image data, \<open>bitIndex\<close> the number of bits
  written so far.\<close>

fun lsb_write :: "byte list \<Rightarrow> nat \<Rightarrow> byte list \<Rightarrow> nat \<Rightarrow> nat \<Rightarrow> byte list" where
  "lsb_write bytes requiredBits [] i bitIndex = []"
| "lsb_write bytes requiredBits (d # ds) i bitIndex =
     (if bitIndex < requiredBits then
        (if (i + 1) mod 4 = 0 then d # lsb_write bytes requiredBits ds (i + 1) bitIndex
         else
           (let byteIndex = bitIndex div 8;
                bitOffset = 7 - (bitIndex mod 8);
                b = (drop_bit bitOffset (byte_at bytes byteIndex)) AND 1
            in ((d AND 0xfe) OR b) # lsb_write bytes requiredBits ds (i + 1) (bitIndex + 1)))
      else d # ds)"

definition embedBytesAsLsb :: "canvas \<Rightarrow> byte list \<Rightarrow> error + canvas" where
  "embedBytesAsLsb canvas bytes =
     (if \<not> cv_ctx canvas then Inl ContextUnavailable
      else
        (let requiredBits = length bytes * 8;
             availableBits = (length (cv_data canvas) * 3) div 4
         in if requiredBits > availableBits
            then Inl (PayloadExceedsCapacity requiredBits availableBits)
            else Inr (canvas\<lparr>cv_data := lsb_write bytes requiredBits (cv_data canvas) 0 0\<rparr>)))"

text \<open>The bytes of the image that carry payload bits are all bytes except each fourth
  one (alpha). \<open>carriers_before i\<close> counts the carrier bytes at indices below \<open>i\<close>.\<close>

definition carriers_before :: "nat \<Rightarrow> nat" where
  "carriers_before i = length (filter (\<lambda>k. (k + 1) mod 4 \<noteq> 0) [0..<i])"

definition non_alpha_bytes :: "canvas \<Rightarrow> nat" where
  "non_alpha_bytes c = carriers_before (length (cv_data c))"


section \<open>JSON values and JavaScript objects\<close>

text \<open>A JSON value as JavaScript holds it. A string is a sequence of code units, here
  those below 256 (on them the order of code units and the order of code points agree).
  An object is the list of its own properties in enumeration order, which is the order
  in which \<^verbatim>\<open>Object.keys\<close>, the spread operator and \<^verbatim>\<open>JSON.stringify\<close> visit them.\<close>

datatype json =
    JNull
  | JBool bool
  | JNum real
  | JStr string
  | JArr "json list"
  | JObj "(string \<times> json) list"

definition is_digit :: "char \<Rightarrow> bool" where
  "is_digit c \<longleftrightarrow> 48 \<le> (of_char c :: nat) \<and> (of_char c :: nat) \<le> 57"

fun digits_value :: "nat \<Rightarrow> string \<Rightarrow> nat" where
  "digits_value acc [] = acc"
| "digits_value acc (c # cs) = digits_value (acc * 10 + (of_char c - 48)) cs"

text \<open>An array index is a property name that is the decimal form, without leading
  zeros, of an integer below \<open>2^32 - 1\<close>. JavaScript enumerates the array-index
  properties of an object first, in ascending numeric order, and then the other string
  properties in the order of their creation.\<close>

definition is_array_index :: "string \<Rightarrow> bool" where
  "is_array_index s \<longleftrightarrow>
     s \<noteq> [] \<and> list_all is_digit s \<and> (s = ''0'' \<or> hd s \<noteq> CHR ''0'') \<and>
     digits_value 0 s < 4294967295"

fun replace_value :: "string \<Rightarrow> json \<Rightarrow> (string \<times> json) list \<Rightarrow> (string \<times> json) list" where
  "replace_value k v [] = []"
| "replace_value k v ((k', v') # ps) =
     (if k' = k then (k, v) # ps else (k', v') # replace_value k v ps)"

fun insert_index :: "string \<Rightarrow> json \<Rightarrow> (string \<times> json) list \<Rightarrow> (string \<times> json) list" where
  "insert_index k v [] = [(k, v)]"
| "insert_index k v ((k', v') # ps) =
     (if is_array_index k' \<and> digits_value 0 k' < digits_value 0 k
      then (k', v') # insert_index k v ps
      else (k, v) # (k', v') # ps)"

text \<open>The assignment \<^verbatim>\<open>obj[key] = value\<close>: a property that exists keeps its place; a new
  array-index property goes among the array indices; any other new property goes last.\<close>

definition js_set :: "(string \<times> json) list \<Rightarrow> string \<Rightarrow> json \<Rightarrow> (string \<times> json) list" where
  "js_set obj k v =
     (if map_of obj k \<noteq> None then replace_value k v obj
      else if is_array_index k then insert_index k v obj
      else obj @ [(k, v)])"

text \<open>\<^verbatim>\<open>delete obj[key]\<close> and the object spread \<^verbatim>\<open>{ ...obj }\<close>.\<close>

definition js_delete :: "(string \<times> json) list \<Rightarrow> string \<Rightarrow> (string \<times> json) list" where
  "js_delete obj k = filter (\<lambda>p. fst p \<noteq> k) obj"

definition js_spread :: "(string \<times> json) list \<Rightarrow> (string \<times> json) list" where
  "js_spread obj = foldl (\<lambda>result p. js_set result (fst p) (snd p)) [] obj"

text \<open>The loop \<^verbatim>\<open>for (const key of sortedKeys) result[key] = ...\<close> of \<^verbatim>\<open>canonicalize\<close>,
  over the properties whose values are canonical already. \<^verbatim>\<open>sort()\<close> without a
  comparator orders strings by their code units.\<close>

definition canonical_object :: "(string \<times> json) list \<Rightarrow> (string \<times> json) list" where
  "canonical_object props =
     foldl (\<lambda>result key. case map_of props key of
                             None \<Rightarrow> result
                           | Some v \<Rightarrow> js_set result key v)
       [] (sort (map fst props))"

text \<open>\<^verbatim>\<open>canonicalize\<close> (cryptoService): arrays are mapped element by element, objects are
  rebuilt from their sorted keys, every other value is returned as it is.\<close>

primrec canonicalize :: "json \<Rightarrow> json" where
  "canonicalize JNull = JNull"
| "canonicalize (JBool b) = JBool b"
| "canonicalize (JNum n) = JNum n"
| "canonicalize (JStr s) = JStr s"
| "canonicalize (JArr xs) = JArr (map canonicalize xs)"
| "canonicalize (JObj props) = JObj (canonical_object (map (map_prod id canonicalize) props))"

text \<open>\<^verbatim>\<open>JSON.stringify\<close> with one argument. Strings are quoted as the language defines
  it; the text of a number (\<^verbatim>\<open>Number.prototype.toString\<close>) is a parameter.\<close>

definition hex_digit :: "nat \<Rightarrow> char" where
  "hex_digit n = (if n < 10 then char_of (48 + n) else char_of (87 + n))"

definition quote_char :: "char \<Rightarrow> string" where
  "quote_char c =
     (let n = (of_char c :: nat) in
      if n = 34 then [CHR 0x5C, CHR 0x22]
      else if n = 92 then [CHR 0x5C, CHR 0x5C]
      else if n = 8 then [CHR 0x5C, CHR ''b'']
      else if n = 12 then [CHR 0x5C, CHR ''f'']
      else if n = 10 then [CHR 0x5C, CHR ''n'']
      else if n = 13 then [CHR 0x5C, CHR ''r'']
      else if n = 9 then [CHR 0x5C, CHR ''t'']
      else if n < 32 then [CHR 0x5C, CHR ''u'', CHR ''0'', CHR ''0'', hex_digit (n div 16), hex_digit (n mod 16)]
      else [c])"

definition quote :: "string \<Rightarrow> string" where
  "quote s = [CHR 0x22] @ concat (map quote_char s) @ [CHR 0x22]"

fun join_with :: "string \<Rightarrow> string list \<Rightarrow> string" where
  "join_with sep [] = []"
| "join_with sep [x] = x"
| "join_with sep (x # y # ys) = x @ sep @ join_with sep (y # ys)"

primrec JSON_stringify :: "(real \<Rightarrow> string) \<Rightarrow> json \<Rightarrow> string" where
  "JSON_stringify num_str JNull = ''null''"
| "JSON_stringify num_str (JBool b) = (if b then ''true'' else ''false'')"
| "JSON_stringify num_str (JNum n) = num_str n"
| "JSON_stringify num_str (JStr s) = quote s"
| "JSON_stringify num_str (JArr xs) =
     ''['' @ join_with '','' (map (JSON_stringify num_str) xs) @ '']''"
| "JSON_stringify num_str (JObj props) =
     ''{'' @ join_with '',''
        (map (\<lambda>p. quote (fst p) @ '':'' @ snd p) (map (map_prod id (JSON_stringify num_str)) props))
      @ ''}''"

text \<open>\<^verbatim>\<open>getPayloadHeader\<close>: a shallow copy of the record, without its \<^verbatim>\<open>signature\<close>
  property, canonicalized and serialized.\<close>

definition getPayloadHeader :: "(real \<Rightarrow> string) \<Rightarrow> (string \<times> json) list \<Rightarrow> string" where
  "getPayloadHeader num_str payload =
     (let copy = js_delete (js_spread payload) ''signature'';
          canonicalPayload = canonicalize (JObj copy)
      in JSON_stringify num_str canonicalPayload)"

text \<open>The decimal text of a natural number, as \<^verbatim>\<open>toString\<close> gives it for the integers
  that the examples below use.\<close>

fun nat_text :: "nat \<Rightarrow> string" where
  "nat_text n = (if n < 10 then [char_of (48 + n)] else nat_text (n div 10) @ [char_of (48 + n mod 10)])"

definition integer_text :: "real \<Rightarrow> string" where
  "integer_text r = nat_text (nat \<lfloor>r\<rfloor>)"

section \<open>Data model (types.ts)\<close>

datatype SigScheme = RSA | ECC

definition sig_scheme_text :: "SigScheme \<Rightarrow> string" where
  "sig_scheme_text s = (case s of RSA \<Rightarrow> ''rsa-pss-sha256'' | ECC \<Rightarrow> ''ecdsa-p256-sha256'')"

datatype FilterType = Grayscale | Sepia | Invert | NoFilter

definition filter_text :: "FilterType \<Rightarrow> string" where
  "filter_text f =
     (case f of Grayscale \<Rightarrow> ''grayscale'' | Sepia \<Rightarrow> ''sepia'' | Invert \<Rightarrow> ''invert''
      | NoFilter \<Rightarrow> ''none'')"

datatype EditOperation =
    Brightness real
  | Contrast real
  | Crop real real real real
  | Rotate real
  | Compress real
  | Filter FilterType
  | Text string real real string string

record Snapshot =
  sn_w :: nat
  sn_h :: nat
  sn_bytes_b64 :: string

record HistoryEntry =
  version :: nat
  sha256 :: string
  parent_hash :: "string option"
  timestamp :: string
  signer :: string
  sig_scheme :: SigScheme
  edit_log :: "EditOperation list"
  snapshot :: "Snapshot option"
  signature :: string

record DctMetadata =
  dm_chain_id :: string
  dm_version_count :: nat
  dm_last_version_hash :: string

record ChainedPayload =
  chain_id :: string
  history :: "HistoryEntry list"
  dct_metadata :: "DctMetadata option"

record VerificationResult =
  isSignatureValid :: bool
  isChainLinkValid :: bool
  vr_error :: "string option"

record VersionInfo =
  vi_entry :: HistoryEntry
  vi_verification :: VerificationResult

record Keys =
  privateKeyPem :: string
  publicKeyPem :: string

record SessionData =
  ss_keys :: Keys
  ss_signer :: string
  ss_payload :: ChainedPayload
  ss_currentImageSrc :: string
  ss_baseFileName :: string

text \<open>The JavaScript objects of the data model, with their properties in the order in
  which the object literals of the program create them.\<close>

definition edit_json :: "EditOperation \<Rightarrow> json" where
  "edit_json e =
     (case e of
        Brightness d \<Rightarrow> JObj [(''op'', JStr ''brightness''), (''delta'', JNum d)]
      | Contrast d \<Rightarrow> JObj [(''op'', JStr ''contrast''), (''delta'', JNum d)]
      | Crop x y w h \<Rightarrow>
          JObj [(''op'', JStr ''crop''), (''x'', JNum x), (''y'', JNum y), (''w'', JNum w),
                (''h'', JNum h)]
      | Rotate a \<Rightarrow> JObj [(''op'', JStr ''rotate''), (''angle'', JNum a)]
      | Compress q \<Rightarrow> JObj [(''op'', JStr ''compress''), (''quality'', JNum q)]
      | Filter t \<Rightarrow> JObj [(''op'', JStr ''filter''), (''type'', JStr (filter_text t))]
      | Text t x y f c \<Rightarrow>
          JObj [(''op'', JStr ''text''), (''text'', JStr t), (''x'', JNum x), (''y'', JNum y),
                (''font'', JStr f), (''color'', JStr c)])"

definition snapshot_json :: "Snapshot option \<Rightarrow> json" where
  "snapshot_json s =
     (case s of
        None \<Rightarrow> JNull
      | Some sn \<Rightarrow>
          JObj [(''w'', JNum (real (sn_w sn))), (''h'', JNum (real (sn_h sn))),
                (''codec'', JStr ''webp''), (''bytes_b64'', JStr (sn_bytes_b64 sn))])"

text \<open>An entry before it is signed (\<^verbatim>\<open>Omit<HistoryEntry, 'signature'>\<close>), and the signed
  entry \<^verbatim>\<open>{ ...newEntry, signature }\<close>.\<close>

definition unsigned_entry_json :: "HistoryEntry \<Rightarrow> (string \<times> json) list" where
  "unsigned_entry_json e =
     [(''version'', JNum (real (version e))),
      (''sha256'', JStr (sha256 e)),
      (''parent_hash'', (case parent_hash e of None \<Rightarrow> JNull | Some h \<Rightarrow> JStr h)),
      (''timestamp'', JStr (timestamp e)),
      (''signer'', JStr (signer e)),
      (''sig_scheme'', JStr (sig_scheme_text (sig_scheme e))),
      (''edit_log'', JArr (map edit_json (edit_log e))),
      (''snapshot'', snapshot_json (snapshot e))]"

definition entry_json :: "HistoryEntry \<Rightarrow> (string \<times> json) list" where
  "entry_json e = js_set (js_spread (unsigned_entry_json e)) ''signature'' (JStr (signature e))"

definition dct_metadata_json :: "DctMetadata \<Rightarrow> json" where
  "dct_metadata_json m =
     JObj [(''chain_id'', JStr (dm_chain_id m)),
           (''version_count'', JNum (real (dm_version_count m))),
           (''last_version_hash'', JStr (dm_last_version_hash m))]"

definition payload_json :: "ChainedPayload \<Rightarrow> json" where
  "payload_json p =
     JObj ([(''chain_id'', JStr (chain_id p)),
            (''history'', JArr (map (\<lambda>e. JObj (entry_json e)) (history p)))] @
           (case dct_metadata p of
              None \<Rightarrow> []
            | Some m \<Rightarrow> [(''_dct_metadata'', dct_metadata_json m)]))"

section \<open>What the program takes from the browser and from libraries\<close>

text \<open>The browser and library operations that the program calls and that are not part
  of its own code are parameters of the model: the text of a number, the compressor
  (\<^verbatim>\<open>pako\<close>), \<^verbatim>\<open>JSON.parse\<close>, the PNG hash of a canvas, the snapshot encoder, the clock,
  WebCrypto signing and verification, loading a data URL back into the editor canvas,
  canvas rotation and rendering a file or image element to a canvas. The DCT codec of the program computes on floating-point numbers; its
  two entry points are parameters as well. A value \<open>Inl e\<close> stands for a thrown
  exception or a rejected promise.\<close>

record CriticalMetadata =
  cm_chain_id :: string
  cm_version_count :: nat
  cm_last_version_hash :: string
  cm_checksum :: string

record externals =
  ext_num_str :: "real \<Rightarrow> string"
  ext_deflate :: "byte list \<Rightarrow> byte list"
  ext_inflate :: "byte list \<Rightarrow> error + string"
  ext_JSON_parse :: "string \<Rightarrow> error + json"
  ext_canvas_hash :: "canvas \<Rightarrow> error + string"
  ext_createSnapshot :: "canvas \<Rightarrow> error + Snapshot"
  ext_now :: string
  ext_signPayload :: "string \<Rightarrow> string \<Rightarrow> SigScheme \<Rightarrow> error + string"
  ext_verifySignature :: "string \<Rightarrow> string \<Rightarrow> string \<Rightarrow> SigScheme \<Rightarrow> bool"
  ext_toDataURL :: "canvas \<Rightarrow> string"
  ext_loadImageIntoCanvas :: "string \<Rightarrow> canvas \<Rightarrow> error + canvas"
  ext_embedCriticalMetadataDCT :: "canvas \<Rightarrow> CriticalMetadata \<Rightarrow> error + canvas"
  ext_extractCriticalMetadataDCT :: "canvas \<Rightarrow> error + CriticalMetadata option"
  ext_rotateCanvas :: "canvas \<Rightarrow> int \<Rightarrow> error + canvas"
  ext_renderCanvasFromImage :: "string \<Rightarrow> error + canvas"

section \<open>The LSB frame (watermark service)\<close>

text \<open>\<^verbatim>\<open>TextEncoder.encode\<close> on code units below 256.\<close>

definition utf8_char :: "char \<Rightarrow> byte list" where
  "utf8_char c =
     (let n = (of_char c :: nat)
      in if n < 128 then [of_nat n] else [of_nat (192 + n div 64), of_nat (128 + n mod 64)])"

definition utf8_encode :: "string \<Rightarrow> byte list" where
  "utf8_encode s = concat (map utf8_char s)"

definition LSB_MAGIC :: "byte list" where
  "LSB_MAGIC = utf8_encode ''ICLSB01''"

definition LSB_END_MARKER :: "byte list" where
  "LSB_END_MARKER = utf8_encode ''ICEND01''"

text \<open>The four stores \<^verbatim>\<open>(x >>> 24) & 0xff\<close>, \<^verbatim>\<open>(x >>> 16) & 0xff\<close>, \<^verbatim>\<open>(x >>> 8) & 0xff\<close>,
  \<^verbatim>\<open>x & 0xff\<close>; \<^verbatim>\<open>>>>\<close> reads its operand modulo \<open>2^32\<close>.\<close>

definition be32 :: "u32 \<Rightarrow> byte list" where
  "be32 x = [ucast (drop_bit 24 x), ucast (drop_bit 16 x), ucast (drop_bit 8 x), ucast x]"

definition framePayload :: "externals \<Rightarrow> ChainedPayload \<Rightarrow> byte list" where
  "framePayload ext payload =
     (let json = utf8_encode (JSON_stringify (ext_num_str ext) (payload_json payload));
          compressed = ext_deflate ext json;
          hash = checksum32 compressed
      in LSB_MAGIC @ be32 (of_nat (length compressed)) @ be32 hash @ compressed @ LSB_END_MARKER)"

section \<open>Critical metadata and embedding (dctService, watermark service)\<close>

definition hex8 :: "u32 \<Rightarrow> string" where
  "hex8 x = map (\<lambda>i. hex_digit (unat (drop_bit (4 * i) x AND 15))) [7, 6, 5, 4, 3, 2, 1, 0]"

definition calculateMetadataChecksum :: "(real \<Rightarrow> string) \<Rightarrow> string \<Rightarrow> nat \<Rightarrow> string \<Rightarrow> string" where
  "calculateMetadataChecksum num_str chainId versionCount lastHash =
     (let seed = chainId @ ''|'' @ num_str (real versionCount) @ ''|'' @ lastHash;
          hash = foldl (\<lambda>h c. h * 31 + of_nat (of_char c)) (0 :: u32) seed
      in hex8 hash)"

definition extractCriticalMetadata :: "(real \<Rightarrow> string) \<Rightarrow> ChainedPayload \<Rightarrow> CriticalMetadata" where
  "extractCriticalMetadata num_str payload =
     (let historyLength = length (history payload);
          lastHash = (if historyLength > 0 then sha256 (last (history payload)) else [])
      in \<lparr>cm_chain_id = chain_id payload,
          cm_version_count = historyLength,
          cm_last_version_hash = lastHash,
          cm_checksum = calculateMetadataChecksum num_str (chain_id payload) historyLength lastHash\<rparr>)"

text \<open>The first step of \<^verbatim>\<open>embedPayload\<close>: the DCT write, whose failure is logged and
  ignored.\<close>

definition dct_stage :: "externals \<Rightarrow> canvas \<Rightarrow> ChainedPayload \<Rightarrow> canvas" where
  "dct_stage ext canvas payload =
     (case ext_embedCriticalMetadataDCT ext canvas
             (extractCriticalMetadata (ext_num_str ext) payload) of
        Inl e \<Rightarrow> canvas
      | Inr c \<Rightarrow> c)"

definition embedPayload :: "externals \<Rightarrow> canvas \<Rightarrow> ChainedPayload \<Rightarrow> error + canvas" where
  "embedPayload ext canvas payload =
     (let frame = framePayload ext payload;
          redundantFrame = withRepetition frame
      in embedBytesAsLsb (dct_stage ext canvas payload) redundantFrame)"

section \<open>Committing a version (ImageWorkflow)\<close>

text \<open>The state of the editor that \<^verbatim>\<open>handleCommit\<close> reads and writes: the session, the
  canvas of \<^verbatim>\<open>canvasRef\<close>, the edit log and the signature scheme chosen before the
  session.\<close>

record Workflow =
  wf_session :: "SessionData option"
  wf_canvas :: "canvas option"
  wf_editLog :: "EditOperation list"
  wf_sigScheme :: SigScheme

datatype commit_outcome = NoSession | Alert string | Committed

definition commit_failed :: commit_outcome where
  "commit_failed = Alert ''Failed to commit version. See console for details.''"

definition newEntry :: "externals \<Rightarrow> SessionData \<Rightarrow> Workflow \<Rightarrow> string \<Rightarrow> Snapshot option \<Rightarrow> HistoryEntry" where
  "newEntry ext session w currentHash snap =
     (let hist = history (ss_payload session);
          lastEntry = (if hist \<noteq> [] then Some (last hist) else None)
      in \<lparr>version = (case lastEntry of None \<Rightarrow> 0 | Some e \<Rightarrow> version e) + 1,
          sha256 = currentHash,
          parent_hash = (case lastEntry of None \<Rightarrow> None | Some e \<Rightarrow> Some (sha256 e)),
          timestamp = ext_now ext,
          signer = ss_signer session,
          sig_scheme = wf_sigScheme w,
          edit_log = wf_editLog w,
          snapshot = snap,
          signature = []\<rparr>)"

definition handleCommit :: "externals \<Rightarrow> Workflow \<Rightarrow> commit_outcome \<times> Workflow" where
  "handleCommit ext w =
     (case wf_session w of
        None \<Rightarrow> (NoSession, w)
      | Some session \<Rightarrow>
     (case wf_canvas w of
        None \<Rightarrow> (Alert ''Canvas not ready yet.'', w)
      | Some canvas \<Rightarrow>
     (let isInitialVersion = (history (ss_payload session) = []);
          editLog = wf_editLog w
      in if \<not> isInitialVersion \<and> editLog = []
         then (Alert ''No edits to commit. Make a change first, or this will create a duplicate version.'', w)
         else
     (case ext_canvas_hash ext canvas of
        Inl e \<Rightarrow> (commit_failed, w)
      | Inr currentHash \<Rightarrow>
     (case (if isInitialVersion \<or> editLog \<noteq> []
            then map_sum id Some (ext_createSnapshot ext canvas) else Inr None) of
        Inl e \<Rightarrow> (commit_failed, w)
      | Inr snap \<Rightarrow>
     (let entry = newEntry ext session w currentHash snap;
          header = getPayloadHeader (ext_num_str ext) (unsigned_entry_json entry)
      in
     (case ext_signPayload ext header (privateKeyPem (ss_keys session)) (wf_sigScheme w) of
        Inl e \<Rightarrow> (commit_failed, w)
      | Inr sig \<Rightarrow>
     (let historyEntry = entry\<lparr>signature := sig\<rparr>;
          updatedPayload = \<lparr>chain_id = chain_id (ss_payload session),
                            history = history (ss_payload session) @ [historyEntry],
                            dct_metadata = None\<rparr>
      in
     (case embedPayload ext canvas updatedPayload of
        Inl e \<Rightarrow> (commit_failed, w\<lparr>wf_canvas := Some (dct_stage ext canvas updatedPayload)\<rparr>)
      | Inr embedded \<Rightarrow>
     (let updatedDataUrl = ext_toDataURL ext embedded
      in
     (case ext_loadImageIntoCanvas ext updatedDataUrl embedded of
        Inl e \<Rightarrow> (commit_failed, w\<lparr>wf_canvas := Some embedded\<rparr>)
      | Inr reloaded \<Rightarrow>
          (Committed,
           w\<lparr>wf_session := Some (session\<lparr>ss_payload := updatedPayload,
                                          ss_currentImageSrc := updatedDataUrl\<rparr>),
             wf_canvas := Some reloaded,
             wf_editLog := []\<rparr>))))))))))))"

text \<open>The chain invariants of a history: I1 (the first entry has version 1 and no
  parent hash), I2 (each later version is the previous one plus one) and I3 (each later
  parent hash is the hash of the previous entry).\<close>

definition chain_I1 :: "HistoryEntry list \<Rightarrow> bool" where
  "chain_I1 h \<longleftrightarrow> (h \<noteq> [] \<longrightarrow> version (h ! 0) = 1 \<and> parent_hash (h ! 0) = None)"

definition chain_I2 :: "HistoryEntry list \<Rightarrow> bool" where
  "chain_I2 h \<longleftrightarrow> (\<forall>i. 0 < i \<and> i < length h \<longrightarrow> version (h ! i) = version (h ! (i - 1)) + 1)"

definition chain_I3 :: "HistoryEntry list \<Rightarrow> bool" where
  "chain_I3 h \<longleftrightarrow>
     (\<forall>i. 0 < i \<and> i < length h \<longrightarrow> parent_hash (h ! i) = Some (sha256 (h ! (i - 1))))"

definition chain_invariants :: "HistoryEntry list \<Rightarrow> bool" where
  "chain_invariants h \<longleftrightarrow> chain_I1 h \<and> chain_I2 h \<and> chain_I3 h"

text \<open>The operations whose presence in an edit log the specification calls
  destructive.\<close>

definition destructive :: "EditOperation \<Rightarrow> bool" where
  "destructive e =
     (case e of Filter t \<Rightarrow> True | Crop x y w h \<Rightarrow> True | Rotate a \<Rightarrow> True
      | Compress q \<Rightarrow> True | Text t x y f c \<Rightarrow> True | Brightness d \<Rightarrow> False
      | Contrast d \<Rightarrow> False)"

section \<open>Sample values for the examples\<close>

text \<open>An instance of the parameters: numbers print as integers, the compressor stores
  its input unchanged, the DCT layer finds the image too small and reads nothing, and
  the other operations succeed with fixed results.\<close>

definition ascii_decode :: "byte list \<Rightarrow> string" where
  "ascii_decode bs = map (\<lambda>b. char_of (unat b)) bs"

definition sample_externals :: externals where
  "sample_externals =
     \<lparr>ext_num_str = integer_text,
      ext_deflate = (\<lambda>bs. bs),
      ext_inflate = (\<lambda>bs. Inr (ascii_decode bs)),
      ext_JSON_parse = (\<lambda>s. Inl (ExternalFailure ''Unexpected token'')),
      ext_canvas_hash = (\<lambda>c. Inr ''c0ffee''),
      ext_createSnapshot = (\<lambda>c. Inr \<lparr>sn_w = 160, sn_h = 160, sn_bytes_b64 = ''UklGRg==''\<rparr>),
      ext_now = ''2024-05-01T10:00:00.000Z'',
      ext_signPayload = (\<lambda>header key scheme. Inr ''c2ln''),
      ext_verifySignature = (\<lambda>header sg key scheme. True),
      ext_toDataURL = (\<lambda>c. ''data:image/png;base64,AA==''),
      ext_loadImageIntoCanvas = (\<lambda>url c. Inr c),
      ext_embedCriticalMetadataDCT =
        (\<lambda>c m. Inl (ExternalFailure ''Canvas does not have enough capacity for DCT metadata.'')),
      ext_extractCriticalMetadataDCT = (\<lambda>c. Inr None),
      ext_rotateCanvas = (\<lambda>c d. Inr c),
      ext_renderCanvasFromImage = (\<lambda>file. Inl (ExternalFailure ''Image failed to load.''))\<rparr>"

definition sample_canvas :: canvas where
  "sample_canvas = \<lparr>cv_width = 100, cv_height = 100, cv_data = replicate 40000 0, cv_ctx = True\<rparr>"

definition sample_entry :: HistoryEntry where
  "sample_entry =
     \<lparr>version = 1, sha256 = ''aa11'', parent_hash = None,
      timestamp = ''2024-05-01T09:00:00.000Z'', signer = ''Studio'', sig_scheme = ECC,
      edit_log = [], snapshot = Some \<lparr>sn_w = 160, sn_h = 160, sn_bytes_b64 = ''UklGRg==''\<rparr>,
      signature = ''c2ln''\<rparr>"

definition sample_session :: SessionData where
  "sample_session =
     \<lparr>ss_keys = \<lparr>privateKeyPem = ''PRIVATE'', publicKeyPem = ''PUBLIC''\<rparr>,
      ss_signer = ''Studio'',
      ss_payload = \<lparr>chain_id = ''c0de'', history = [sample_entry], dct_metadata = None\<rparr>,
      ss_currentImageSrc = ''data:image/png;base64,AA=='',
      ss_baseFileName = ''photo''\<rparr>"

definition sample_workflow :: Workflow where
  "sample_workflow =
     \<lparr>wf_session = Some sample_session, wf_canvas = Some sample_canvas,
      wf_editLog = [Brightness 2], wf_sigScheme = ECC\<rparr>"

text \<open>The payload that committing the sample edit log to the sample session produces.\<close>

definition sample_committed_payload :: ChainedPayload where
  "sample_committed_payload =
     \<lparr>chain_id = ''c0de'',
      history =
        [sample_entry,
         (newEntry sample_externals sample_session sample_workflow ''c0ffee''
            (Some \<lparr>sn_w = 160, sn_h = 160, sn_bytes_b64 = ''UklGRg==''\<rparr>))\<lparr>signature := ''c2ln''\<rparr>],
      dct_metadata = None\<rparr>"

section \<open>Verifying a chain (VersionHistory)\<close>

text \<open>One iteration of the loop of \<^verbatim>\<open>runVerification\<close>: the verification record of an
  entry and whether it sets \<^verbatim>\<open>hashMismatch\<close>. \<open>isLast\<close> stands for the test that the entry
  is the last element of the history, \<open>previousHash\<close> is \<open>None\<close> for \<^verbatim>\<open>null\<close>.\<close>

definition or_empty :: "string option \<Rightarrow> string" where
  "or_empty e = (case e of None \<Rightarrow> [] | Some s \<Rightarrow> s)"

definition verify_entry ::
  "externals \<Rightarrow> string \<Rightarrow> string option \<Rightarrow> bool \<Rightarrow> bool \<Rightarrow> string option \<Rightarrow> HistoryEntry
     \<Rightarrow> VerificationResult \<times> bool" where
  "verify_entry ext keyPem currentHash isUploadedImage isLast previousHash entry =
     (let header = getPayloadHeader (ext_num_str ext) (entry_json entry);
          sigValid = ext_verifySignature ext header (signature entry) keyPem
                       (sig_scheme entry);
          linkValid = (parent_hash entry = previousHash);
          mismatch = (currentHash \<noteq> None \<and> currentHash \<noteq> Some [] \<and> isLast \<and>
                      \<not> isUploadedImage \<and> Some (sha256 entry) \<noteq> currentHash);
          error0 = (if mismatch then Some ''Image hash does not match committed version.''
                    else None);
          error1 = (if \<not> sigValid then Some (or_empty error0 @ '' Signature invalid.'')
                    else error0);
          error2 = (if \<not> linkValid then Some (or_empty error1 @ '' Hash chain broken.'')
                    else error1)
      in (\<lparr>isSignatureValid = sigValid, isChainLinkValid = linkValid, vr_error = error2\<rparr>,
          mismatch))"

text \<open>The loop over \<^verbatim>\<open>payload.history\<close>: \<open>n\<close> is the length of the whole history and \<open>i\<close>
  the index of the head of the remaining entries.\<close>

fun verify_entries ::
  "externals \<Rightarrow> string \<Rightarrow> string option \<Rightarrow> bool \<Rightarrow> nat \<Rightarrow> nat \<Rightarrow> string option
     \<Rightarrow> HistoryEntry list \<Rightarrow> VersionInfo list \<times> bool" where
  "verify_entries ext pk cur up n i previousHash [] = ([], False)"
| "verify_entries ext pk cur up n i previousHash (entry # rest) =
     (case verify_entry ext pk cur up (i + 1 = n) previousHash entry of
        (verification, mismatch) \<Rightarrow>
          (case verify_entries ext pk cur up n (i + 1) (Some (sha256 entry)) rest of
             (results, hashMismatch) \<Rightarrow>
               (\<lparr>vi_entry = entry, vi_verification = verification\<rparr> # results,
                mismatch \<or> hashMismatch)))"

definition runVerification ::
  "externals \<Rightarrow> ChainedPayload \<Rightarrow> string \<Rightarrow> canvas option \<Rightarrow> bool
     \<Rightarrow> error + (VersionInfo list \<times> bool)" where
  "runVerification ext payload keyPem currentCanvas isUploadedImage =
     (case (case currentCanvas of
              None \<Rightarrow> Inr None
            | Some c \<Rightarrow> map_sum id Some (ext_canvas_hash ext c)) of
        Inl e \<Rightarrow> Inl e
      | Inr currentHash \<Rightarrow>
          Inr (verify_entries ext keyPem currentHash isUploadedImage
                 (length (history payload)) 0 None (history payload)))"

text \<open>The link conditions of the specification at position \<open>i\<close> of a history: the parent
  hash (I3, and no parent hash on the first entry) and the version (I2).\<close>

definition parent_link_ok :: "HistoryEntry list \<Rightarrow> nat \<Rightarrow> bool" where
  "parent_link_ok h i \<longleftrightarrow>
     parent_hash (h ! i) = (if i = 0 then None else Some (sha256 (h ! (i - 1))))"

definition version_link_ok :: "HistoryEntry list \<Rightarrow> nat \<Rightarrow> bool" where
  "version_link_ok h i \<longleftrightarrow> (if i = 0 then True else version (h ! i) = version (h ! (i - 1)) + 1)"

definition skipped_version_payload :: ChainedPayload where
  "skipped_version_payload =
     \<lparr>chain_id = ''c0de'',
      history = [sample_entry,
                 sample_entry\<lparr>version := 3, sha256 := ''bb22'', parent_hash := Some ''aa11'',
                               edit_log := [Filter Sepia]\<rparr>],
      dct_metadata = None\<rparr>"

definition broken_link_payload :: ChainedPayload where
  "broken_link_payload =
     \<lparr>chain_id = ''c0de'',
      history = [sample_entry,
                 sample_entry\<lparr>version := 2, sha256 := ''bb22'', parent_hash := Some ''ffff'',
                               edit_log := [Filter Sepia]\<rparr>],
      dct_metadata = None\<rparr>"

section \<open>Reading the LSB plane and the frame (watermark service)\<close>

text \<open>The loop of \<^verbatim>\<open>extractLsbBytes\<close>, with the index \<open>i\<close> of the head of the remaining
  image bytes, the number of bits read so far and the output array.\<close>

fun lsb_read :: "nat \<Rightarrow> byte list \<Rightarrow> nat \<Rightarrow> nat \<Rightarrow> byte list \<Rightarrow> byte list" where
  "lsb_read limit [] i bitIndex bytes = bytes"
| "lsb_read limit (d # ds) i bitIndex bytes =
     (if bitIndex < limit then
        (if (i + 1) mod 4 = 0 then lsb_read limit ds (i + 1) bitIndex bytes
         else
           (let bytePosition = bitIndex div 8;
                bitOffset = 7 - (bitIndex mod 8);
                b = d AND 1
            in lsb_read limit ds (i + 1) (bitIndex + 1)
                 (bytes[bytePosition := byte_at bytes bytePosition OR push_bit bitOffset b])))
      else bytes)"

definition extractLsbBytes :: "canvas \<Rightarrow> error + byte list" where
  "extractLsbBytes canvas =
     (if \<not> cv_ctx canvas then Inl ContextUnavailable
      else
        (let totalBits = (length (cv_data canvas) * 3) div 4;
             byteLength = totalBits div 8
         in Inr (lsb_read (byteLength * 8) (cv_data canvas) 0 0 (replicate byteLength 0))))"

text \<open>The expression \<^verbatim>\<open>(b0 << 24) | (b1 << 16) | (b2 << 8) | b3\<close> as a 32-bit pattern;
  JavaScript reads the result as a signed integer (\<open>sint\<close>).\<close>

definition word_be32 :: "byte \<Rightarrow> byte \<Rightarrow> byte \<Rightarrow> byte \<Rightarrow> u32" where
  "word_be32 b0 b1 b2 b3 =
     push_bit 24 (ucast b0) OR push_bit 16 (ucast b1) OR push_bit 8 (ucast b2) OR ucast b3"

definition read_i32 :: "byte list \<Rightarrow> nat \<Rightarrow> int" where
  "read_i32 bytes off =
     sint (word_be32 (byte_at bytes off) (byte_at bytes (off + 1)) (byte_at bytes (off + 2))
             (byte_at bytes (off + 3)))"

text \<open>\<^verbatim>\<open>slice(start, end)\<close> of a typed array: a negative bound counts from the end, and
  both bounds are clamped to the array.\<close>

definition js_slice :: "byte list \<Rightarrow> int \<Rightarrow> int \<Rightarrow> byte list" where
  "js_slice xs s e =
     (let n = int (length xs);
          s' = (if s < 0 then max (n + s) 0 else min s n);
          e' = (if e < 0 then max (n + e) 0 else min e n)
      in take (nat (e' - s')) (drop (nat s') xs))"

text \<open>The comparison of the seven bytes from \<open>footerStart\<close> on with the end marker; a
  position outside the array reads \<^verbatim>\<open>undefined\<close> and differs from every marker byte.\<close>

definition footer_matches :: "byte list \<Rightarrow> int \<Rightarrow> bool" where
  "footer_matches bytes footerStart \<longleftrightarrow>
     0 \<le> footerStart \<and> nat footerStart + 7 \<le> length bytes \<and>
     take 7 (drop (nat footerStart) bytes) = LSB_END_MARKER"

function locate_from :: "byte list \<Rightarrow> nat \<Rightarrow> byte list option" where
  "locate_from bytes start =
     (if start + (7 + 8 + 7) \<le> length bytes then
        (if take 7 (drop start bytes) \<noteq> LSB_MAGIC then locate_from bytes (start + 1)
         else
           (let payloadLength = read_i32 bytes (start + 7);
                totalFrameLength = 7 + 4 + 4 + payloadLength + 7
            in if int start + totalFrameLength > int (length bytes)
               then locate_from bytes (start + 1)
               else if \<not> footer_matches bytes (int start + totalFrameLength - 7)
               then locate_from bytes (start + 1)
               else Some (js_slice bytes (int start) (int start + totalFrameLength))))
      else None)"
  by pat_completeness auto
termination
  by (relation "measure (\<lambda>(bytes, start). length bytes - start)") auto

definition locateFrame :: "byte list \<Rightarrow> byte list option" where
  "locateFrame bytes = locate_from bytes 0"

definition parseFrame :: "externals \<Rightarrow> byte list \<Rightarrow> (json \<times> bool) option" where
  "parseFrame ext frame =
     (let payloadLength = read_i32 frame 7;
          checksum = read_i32 frame 11;
          payloadStart = 15;
          payloadEnd = payloadStart + payloadLength;
          compressed = js_slice frame payloadStart payloadEnd;
          computedChecksum = uint (checksum32 compressed)
      in case ext_inflate ext compressed of
           Inl e \<Rightarrow> None
         | Inr decompressed \<Rightarrow>
             (case ext_JSON_parse ext decompressed of
                Inl e \<Rightarrow> None
              | Inr payload \<Rightarrow> Some (payload, computedChecksum = checksum)))"

record ExtractionResult =
  er_payload :: "json option"
  er_recovered :: bool
  er_corruptionDetected :: bool
  er_errorRate :: "(nat \<times> nat) option"
  er_criticalMetadata :: "CriticalMetadata option"
  er_dctExtracted :: "bool option"

definition js_truthy :: "json \<Rightarrow> bool" where
  "js_truthy v =
     (case v of JNull \<Rightarrow> False | JBool b \<Rightarrow> b | JNum n \<Rightarrow> n \<noteq> 0 | JStr s \<Rightarrow> s \<noteq> []
      | JArr xs \<Rightarrow> True | JObj ps \<Rightarrow> True)"

text \<open>The statement \<^verbatim>\<open>if (criticalMetadata && !payload._dct_metadata) payload._dct_metadata = {...}\<close>
  of \<^verbatim>\<open>extractInternal\<close> on the parsed value. Reading a property of \<^verbatim>\<open>null\<close> throws, and so
  does, in module code, setting a property of a number, string or boolean; a property
  set on an array is not part of its JSON value.\<close>

definition enrich :: "CriticalMetadata option \<Rightarrow> json \<Rightarrow> error + json" where
  "enrich criticalMetadata payload =
     (case criticalMetadata of
        None \<Rightarrow> Inr payload
      | Some m \<Rightarrow>
          (case payload of
             JNull \<Rightarrow> Inl TypeError
           | JObj props \<Rightarrow>
               (if (case map_of props ''_dct_metadata'' of None \<Rightarrow> False | Some v \<Rightarrow> js_truthy v)
                then Inr payload
                else Inr (JObj (js_set props ''_dct_metadata''
                       (JObj [(''chain_id'', JStr (cm_chain_id m)),
                              (''version_count'', JNum (real (cm_version_count m))),
                              (''last_version_hash'', JStr (cm_last_version_hash m))]))))
           | JArr xs \<Rightarrow> Inr payload
           | _ \<Rightarrow> Inl TypeError))"

definition extractInternal :: "externals \<Rightarrow> canvas \<Rightarrow> error + ExtractionResult" where
  "extractInternal ext canvas =
     (let criticalMetadata =
            (case ext_extractCriticalMetadataDCT ext canvas of Inl e \<Rightarrow> None | Inr m \<Rightarrow> m);
          dctExtracted = (criticalMetadata \<noteq> None)
      in case extractLsbBytes canvas of
           Inl e \<Rightarrow> Inl e
         | Inr rawBytes \<Rightarrow>
             (case recoverRepetition rawBytes of
                (decodedBytes, mismatches) \<Rightarrow>
                  (let errorRate = (mismatches, max 1 (length decodedBytes * REPETITION_FACTOR));
                       notFound = \<lparr>er_payload = None, er_recovered = False,
                                   er_corruptionDetected = True, er_errorRate = Some errorRate,
                                   er_criticalMetadata = criticalMetadata,
                                   er_dctExtracted = Some dctExtracted\<rparr>
                   in case locateFrame decodedBytes of
                        None \<Rightarrow> Inr notFound
                      | Some encodedFrame \<Rightarrow>
                          (case parseFrame ext encodedFrame of
                             None \<Rightarrow> Inr notFound
                           | Some (payload, checksumMatched) \<Rightarrow>
                               (case enrich criticalMetadata payload of
                                  Inl e \<Rightarrow> Inl e
                                | Inr enriched \<Rightarrow>
                                    Inr \<lparr>er_payload =
                                           (if checksumMatched \<and> enriched \<noteq> JNull
                                            then Some enriched else None),
                                         er_recovered = (mismatches > 0),
                                         er_corruptionDetected =
                                           (\<not> checksumMatched \<or> mismatches > 0),
                                         er_errorRate = Some errorRate,
                                         er_criticalMetadata = criticalMetadata,
                                         er_dctExtracted = Some dctExtracted\<rparr>)))))"

definition extractPayloadWithDetails :: "externals \<Rightarrow> canvas \<Rightarrow> ExtractionResult" where
  "extractPayloadWithDetails ext canvas =
     (case extractInternal ext canvas of
        Inl e \<Rightarrow> \<lparr>er_payload = None, er_recovered = False, er_corruptionDetected = True,
                   er_errorRate = None, er_criticalMetadata = None, er_dctExtracted = None\<rparr>
      | Inr r \<Rightarrow> r)"

section \<open>The rotation search (extraction service)\<close>

definition DEFAULT_ROTATIONS :: "int list" where
  "DEFAULT_ROTATIONS = [0, 90, 180, 270, -90, -180, -270]"

text \<open>The remainder operator of JavaScript takes the sign of the dividend.\<close>

definition js_rem :: "int \<Rightarrow> int \<Rightarrow> int" where
  "js_rem a b = sgn a * (\<bar>a\<bar> mod \<bar>b\<bar>)"

definition normalize_rotation :: "int \<Rightarrow> int" where
  "normalize_rotation rotation = js_rem (js_rem rotation 360 + 360) 360"

datatype ExtractableSource = CanvasSource canvas | FileSource string

record RotationExtractionResult =
  rr_success :: bool
  rr_payload :: "json option"
  rr_details :: "ExtractionResult option"
  rr_rotation :: "int option"
  rr_criticalMetadata :: "CriticalMetadata option"
  rr_error :: "string option"

text \<open>\<^verbatim>\<open>tryExtractDCT\<close>: the DCT read with its exception turned into a failure.\<close>

definition tryExtractDCT :: "externals \<Rightarrow> canvas \<Rightarrow> bool \<times> CriticalMetadata option" where
  "tryExtractDCT ext canvas =
     (case ext_extractCriticalMetadataDCT ext canvas of
        Inl e \<Rightarrow> (False, None)
      | Inr metadata \<Rightarrow> (metadata \<noteq> None, metadata))"

text \<open>The variables of the loop of \<^verbatim>\<open>tryExtractWithRotations\<close>.\<close>

record search_state =
  lastCriticalMetadata :: "CriticalMetadata option"
  metadataRotation :: "int option"
  lastError :: "string option"
  extractionErrors :: "string list"

text \<open>The constant \<^verbatim>\<open>normalizedRotation\<close> is declared with \<^verbatim>\<open>const\<close> inside the block of the
  first \<^verbatim>\<open>try\<close> of the loop body. The second \<^verbatim>\<open>try\<close> block and the \<^verbatim>\<open>try\<close> around the DCT
  fallback name it outside that block, where no binding of that name exists: evaluating
  the name there throws a \<^verbatim>\<open>ReferenceError\<close>.\<close>

definition normalizedRotation_outside_its_block :: "error + int" where
  "normalizedRotation_outside_its_block = Inl ReferenceError"

text \<open>The expression \<^verbatim>\<open>normalizedRotation === 0 ? 0 : rotation\<close> in those places.\<close>

definition reported_rotation :: "int \<Rightarrow> error + int" where
  "reported_rotation rotation =
     (case normalizedRotation_outside_its_block of
        Inl e \<Rightarrow> Inl e
      | Inr normalizedRotation \<Rightarrow> Inr (if normalizedRotation = 0 then 0 else rotation))"

text \<open>The message of a caught exception. The messages of the program's own errors are
  those of its \<^verbatim>\<open>throw\<close> statements; an exception of the browser or of a library carries
  its message.\<close>

definition error_message :: "(real \<Rightarrow> string) \<Rightarrow> error \<Rightarrow> string" where
  "error_message num_str e =
     (case e of
        ReferenceError \<Rightarrow> ''normalizedRotation is not defined''
      | TypeError \<Rightarrow> ''Cannot read properties of null''
      | ContextUnavailable \<Rightarrow> ''Unable to acquire canvas context.''
      | PayloadExceedsCapacity needed available \<Rightarrow>
          ''Payload exceeds LSB capacity. Needed '' @ num_str (real needed) @ '', available '' @
          num_str (real available) @ ''.''
      | ExternalFailure msg \<Rightarrow> msg)"

definition degrees_text :: "(real \<Rightarrow> string) \<Rightarrow> int \<Rightarrow> string" where
  "degrees_text num_str rotation = num_str (real_of_int rotation) @ [CHR 0xB0]"

text \<open>What the \<^verbatim>\<open>catch\<close> of the second \<^verbatim>\<open>try\<close> block does with an exception.\<close>

definition extraction_caught :: "externals \<Rightarrow> search_state \<Rightarrow> int \<Rightarrow> error \<Rightarrow> search_state" where
  "extraction_caught ext st rotation e =
     (let errMsg = error_message (ext_num_str ext) e;
          st1 = st\<lparr>extractionErrors := extractionErrors st @
                  [''Extraction at '' @ degrees_text (ext_num_str ext) rotation @ '': '' @ errMsg]\<rparr>
      in if lastCriticalMetadata st1 = None then st1\<lparr>lastError := Some errMsg\<rparr> else st1)"

text \<open>The statement \<^verbatim>\<open>if (details.criticalMetadata) { ... } else { ... }\<close> of the loop body.
  An exception in its first branch leaves the second \<^verbatim>\<open>try\<close> block (\<open>Inl\<close>, with the state
  reached); the DCT fallback of its second branch has a \<^verbatim>\<open>try\<close> of its own, whose
  \<^verbatim>\<open>catch\<close> ignores the exception.\<close>

definition remember_metadata ::
  "externals \<Rightarrow> canvas \<Rightarrow> ExtractionResult \<Rightarrow> search_state \<Rightarrow> int
     \<Rightarrow> (search_state \<times> error) + search_state" where
  "remember_metadata ext candidate details st rotation =
     (if er_criticalMetadata details \<noteq> None
      then
        (let st1 = st\<lparr>lastCriticalMetadata := er_criticalMetadata details\<rparr>
         in if metadataRotation st1 = None
            then (case reported_rotation rotation of
                    Inl e \<Rightarrow> Inl (st1, e)
                  | Inr r \<Rightarrow> Inr (st1\<lparr>metadataRotation := Some r\<rparr>))
            else Inr st1)
      else
        (case tryExtractDCT ext candidate of
           (success, metadata) \<Rightarrow>
             if success \<and> metadata \<noteq> None
             then
               (let st1 = st\<lparr>lastCriticalMetadata := metadata\<rparr>
                in if metadataRotation st1 = None
                   then (case reported_rotation rotation of
                           Inl e \<Rightarrow> Inr st1
                         | Inr r \<Rightarrow> Inr (st1\<lparr>metadataRotation := Some r\<rparr>))
                   else Inr st1)
             else Inr st))"

text \<open>One iteration of the loop: either the function returns (\<open>Inl\<close>) or the loop goes on
  with the next rotation (\<open>Inr\<close>).\<close>

definition rotation_step ::
  "externals \<Rightarrow> canvas \<Rightarrow> search_state \<Rightarrow> int \<Rightarrow> RotationExtractionResult + search_state" where
  "rotation_step ext baseCanvas st rotation =
     (case (let normalizedRotation = normalize_rotation rotation
            in if normalizedRotation = 0 then Inr baseCanvas
               else ext_rotateCanvas ext baseCanvas rotation) of
        Inl e \<Rightarrow>
          (let errMsg = error_message (ext_num_str ext) e
           in Inr (st\<lparr>extractionErrors := extractionErrors st @
                         [''Rotation '' @ degrees_text (ext_num_str ext) rotation @ '': '' @ errMsg],
                       lastError := Some errMsg\<rparr>))
      | Inr candidate \<Rightarrow>
          (let details = extractPayloadWithDetails ext candidate
           in if (case er_payload details of None \<Rightarrow> False | Some p \<Rightarrow> js_truthy p)
              then
                (case reported_rotation rotation of
                   Inl e \<Rightarrow> Inr (extraction_caught ext st rotation e)
                 | Inr r \<Rightarrow>
                     Inl \<lparr>rr_success = True, rr_payload = er_payload details,
                          rr_details = Some details, rr_rotation = Some r,
                          rr_criticalMetadata = er_criticalMetadata details, rr_error = None\<rparr>)
              else
                (case remember_metadata ext candidate details st rotation of
                   Inl (st1, e) \<Rightarrow> Inr (extraction_caught ext st1 rotation e)
                 | Inr st2 \<Rightarrow>
                     Inr (if lastCriticalMetadata st2 = None
                          then st2\<lparr>lastError := Some ''payload_not_found''\<rparr> else st2))))"

fun rotation_loop ::
  "externals \<Rightarrow> canvas \<Rightarrow> search_state \<Rightarrow> int list \<Rightarrow> RotationExtractionResult + search_state" where
  "rotation_loop ext baseCanvas st [] = Inr st"
| "rotation_loop ext baseCanvas st (rotation # rest) =
     (case rotation_step ext baseCanvas st rotation of
        Inl result \<Rightarrow> Inl result
      | Inr st' \<Rightarrow> rotation_loop ext baseCanvas st' rest)"

text \<open>\<^verbatim>\<open>tryExtractWithRotations\<close>. The comparator of the sort puts the rotations that
  normalize to 0 first and orders the others by their normalized value, which is the
  stable sort by the normalized value.\<close>

definition join_errors :: "string list \<Rightarrow> string" where
  "join_errors errs = foldr (\<lambda>e acc. if acc = [] then e else e @ ''; '' @ acc) errs []"

definition error_details :: "string list \<Rightarrow> string" where
  "error_details errs =
     (if length errs > 0
      then '' Errors: '' @ join_errors (take 3 errs) @ (if length errs > 3 then ''...'' else [])
      else [])"

definition tryExtractWithRotations ::
  "externals \<Rightarrow> ExtractableSource \<Rightarrow> int list \<Rightarrow> RotationExtractionResult" where
  "tryExtractWithRotations ext source rotations =
     (case (case source of
              CanvasSource c \<Rightarrow> Inr c
            | FileSource f \<Rightarrow> ext_renderCanvasFromImage ext f) of
        Inl e \<Rightarrow>
          \<lparr>rr_success = False, rr_payload = None, rr_details = None, rr_rotation = None,
           rr_criticalMetadata = None,
           rr_error = Some (''Failed to load image: '' @ error_message (ext_num_str ext) e)\<rparr>
      | Inr baseCanvas \<Rightarrow>
          (let sortedRotations = sort_key normalize_rotation rotations;
               st0 = \<lparr>lastCriticalMetadata = None, metadataRotation = None, lastError = None,
                      extractionErrors = []\<rparr>
           in case rotation_loop ext baseCanvas st0 sortedRotations of
                Inl result \<Rightarrow> result
              | Inr st \<Rightarrow>
                  (if lastCriticalMetadata st \<noteq> None
                   then \<lparr>rr_success = False, rr_payload = None, rr_details = None,
                         rr_rotation = metadataRotation st,
                         rr_criticalMetadata = lastCriticalMetadata st,
                         rr_error = Some ''Full payload not found, but critical metadata recovered. Image may have been re-encoded or heavily edited.''\<rparr>
                   else \<lparr>rr_success = False, rr_payload = None, rr_details = None,
                         rr_rotation = metadataRotation st,
                         rr_criticalMetadata = None,
                         rr_error = Some (''Unable to extract ImageChain data from this image.'' @
                           error_details (extractionErrors st) @
                           '' The image may not contain ImageChain data, or the watermark may have been corrupted by rotation, re-encoding, or heavy editing.'')\<rparr>)))"

section \<open>The frame as the specification words it\<close>

text \<open>The bytes that \<^verbatim>\<open>framePayload\<close> hands to the compressor.\<close>

definition frame_json_bytes :: "externals \<Rightarrow> ChainedPayload \<Rightarrow> byte list" where
  "frame_json_bytes ext payload =
     utf8_encode (JSON_stringify (ext_num_str ext) (payload_json payload))"

text \<open>The frame of the specification: as \<^verbatim>\<open>framePayload\<close>, but compressing the canonical
  (key-sorted) serialization of the payload without its DCT metadata field.\<close>

definition spec_json_bytes :: "externals \<Rightarrow> ChainedPayload \<Rightarrow> byte list" where
  "spec_json_bytes ext payload =
     utf8_encode (JSON_stringify (ext_num_str ext)
       (canonicalize (payload_json (payload\<lparr>dct_metadata := None\<rparr>))))"

definition spec_framePayload :: "externals \<Rightarrow> ChainedPayload \<Rightarrow> byte list" where
  "spec_framePayload ext payload =
     (let compressed = ext_deflate ext (spec_json_bytes ext payload)
      in LSB_MAGIC @ be32 (of_nat (length compressed)) @ be32 (checksum32 compressed) @
         compressed @ LSB_END_MARKER)"

section \<open>Records, canonical form and equality up to key order\<close>

text \<open>A plain record: in every object, at every depth, the keys are pairwise different
  and none of them is an array index.\<close>

primrec plain_record :: "json \<Rightarrow> bool" where
  "plain_record JNull = True"
| "plain_record (JBool b) = True"
| "plain_record (JNum n) = True"
| "plain_record (JStr s) = True"
| "plain_record (JArr xs) = list_all id (map plain_record xs)"
| "plain_record (JObj props) =
     (distinct (map fst props) \<and> list_all (\<lambda>k. \<not> is_array_index k) (map fst props) \<and>
      list_all id (map snd (map (map_prod id plain_record) props)))"

text \<open>A value in canonical form: in every object, at every depth, the keys are in
  strictly ascending lexicographic order of their code units.\<close>

primrec canonical_form :: "json \<Rightarrow> bool" where
  "canonical_form JNull = True"
| "canonical_form (JBool b) = True"
| "canonical_form (JNum n) = True"
| "canonical_form (JStr s) = True"
| "canonical_form (JArr xs) = list_all id (map canonical_form xs)"
| "canonical_form (JObj props) =
     (sorted (map fst props) \<and> distinct (map fst props) \<and>
      list_all id (map snd (map (map_prod id canonical_form) props)))"

text \<open>Whitespace, and values none of whose keys and strings holds a space (the other
  whitespace characters are escaped when a string is quoted).\<close>

definition is_whitespace :: "char \<Rightarrow> bool" where
  "is_whitespace c \<longleftrightarrow> (of_char c :: nat) \<in> {32, 9, 10, 13}"

definition whitespace_free :: "string \<Rightarrow> bool" where
  "whitespace_free s \<longleftrightarrow> list_all (\<lambda>c. \<not> is_whitespace c) s"

definition no_space :: "string \<Rightarrow> bool" where
  "no_space s \<longleftrightarrow> list_all (\<lambda>c. (of_char c :: nat) \<noteq> 32) s"

primrec spaceless :: "json \<Rightarrow> bool" where
  "spaceless JNull = True"
| "spaceless (JBool b) = True"
| "spaceless (JNum n) = True"
| "spaceless (JStr s) = no_space s"
| "spaceless (JArr xs) = list_all id (map spaceless xs)"
| "spaceless (JObj props) =
     (list_all no_space (map fst props) \<and>
      list_all id (map snd (map (map_prod id spaceless) props)))"

text \<open>Two values are equal up to the order of object keys: the same scalars, arrays
  equal element by element, and objects with the same keys (each once) and, under each
  key, values that are equal up to the order of object keys.\<close>

inductive json_equiv :: "json \<Rightarrow> json \<Rightarrow> bool" where
  equiv_null: "json_equiv JNull JNull"
| equiv_bool: "json_equiv (JBool b) (JBool b)"
| equiv_num: "json_equiv (JNum n) (JNum n)"
| equiv_str: "json_equiv (JStr s) (JStr s)"
| equiv_arr: "list_all2 json_equiv xs ys \<Longrightarrow> json_equiv (JArr xs) (JArr ys)"
| equiv_obj:
    "distinct (map fst ps) \<Longrightarrow> distinct (map fst qs) \<Longrightarrow>
     set (map fst ps) = set (map fst qs) \<Longrightarrow>
     (\<forall>k v. (k, v) \<in> set ps \<longrightarrow> (\<exists>v'. (k, v') \<in> set qs \<and> json_equiv v v')) \<Longrightarrow>
     json_equiv (JObj ps) (JObj qs)"

definition sample_record :: "(string \<times> json) list" where
  "sample_record =
     [(''version'', JNum 1), (''signature'', JStr ''c2ln''),
      (''edit_log'', JArr [JObj [(''op'', JStr ''filter''), (''type'', JStr ''sepia'')]])]"

definition sample_record_reordered :: "(string \<times> json) list" where
  "sample_record_reordered =
     [(''signature'', JStr ''c2ln''),
      (''edit_log'', JArr [JObj [(''type'', JStr ''sepia''), (''op'', JStr ''filter'')]]),
      (''version'', JNum 1)]"

text \<open>An object with the keys 9 and 10. JavaScript enumerates it as 9, 10 in whatever
  order the two properties were created.\<close>

definition index_keys_record :: "(string \<times> json) list" where
  "index_keys_record = [(''9'', JStr ''b''), (''10'', JStr ''a'')]"

(*THEOREMS*)

section \<open>Properties of the repetition code\<close>

lemma majorityVote_three:
  "majorityVote [a, b, c] =
     (if a = b \<and> b = c then (Some a, 0)
      else if a = b \<or> a = c then (Some a, 1)
      else if b = c then (Some b, 1) else (Some a, 2))"
  by (auto simp: majorityVote_def best_step_def Let_def)

lemma withRepetition_Cons3: "withRepetition (b # bs) = b # b # b # withRepetition bs"
  by (simp add: REPETITION_FACTOR_def numeral_3_eq_3)

declare withRepetition.simps(2) [simp del]

lemma length_withRepetition: "length (withRepetition F) = 3 * length F"
  by (induction F) (simp_all add: withRepetition_Cons3)

lemma recover_chunks_clean: "recover_chunks (withRepetition F) = (F, 0)"
  by (induction F) (simp_all add: withRepetition_Cons3 majorityVote_three to_uint8_def)

lemma recover_chunks_single:
  "j < 3 * length F \<Longrightarrow>
   recover_chunks ((withRepetition F)[j := v]) = (F, if v = F ! (j div 3) then 0 else 1)"
proof (induction F arbitrary: j)
  case Nil
  then show ?case by simp
next
  case (Cons b bs)
  consider "j = 0" | "j = 1" | "j = 2" | "3 \<le> j" by linarith
  then show ?case
  proof cases
    case 4
    then obtain k where k: "j = Suc (Suc (Suc k))"
      by (metis le_Suc_ex numeral_3_eq_3 add_Suc)
    with Cons.prems have "k < 3 * length bs" by simp
    from Cons.IH [OF this]
    have ih: "recover_chunks ((withRepetition bs)[k := v]) =
                (bs, if v = bs ! (k div 3) then 0 else 1)" .
    have d: "(3 + k) div 3 - Suc 0 = k div 3" by simp
    show ?thesis
      by (simp add: withRepetition_Cons3 k ih majorityVote_three to_uint8_def d)
  qed (auto simp: withRepetition_Cons3 majorityVote_three to_uint8_def recover_chunks_clean)
qed

text \<open>Claim C6. Decoding an uncorrupted replicated stream gives back the frame with no
  mismatch; and after one byte of the replicated stream, at any index \<open>j\<close>, is
  overwritten with any value \<open>v\<close>, the majority decode still gives back the frame, and
  the mismatch count (the numerator of the error rate) is 1 when the byte really changed
  and 0 when \<open>v\<close> is the value that was there.\<close>

theorem repetition_recovers_single_error:
  "recoverRepetition (withRepetition F) = (F, 0) \<and>
   (j < length (withRepetition F) \<longrightarrow>
      recoverRepetition ((withRepetition F)[j := v]) =
        (F, if v = F ! (j div 3) then 0 else 1))"
  by (simp add: recoverRepetition_def recover_chunks_clean recover_chunks_single
      length_withRepetition)

theorem repetition_recovers_single_error_witness:
  "recoverRepetition (withRepetition [7, 8]) = ([7, 8], 0) \<and>
   4 < length (withRepetition [7, 8 :: byte]) \<and>
   recoverRepetition ((withRepetition [7, 8])[4 := 200]) = ([7, 8], 1)"
  using repetition_recovers_single_error [of "[7, 8]" 4 200]
  by (simp add: length_withRepetition)

section \<open>Properties of the LSB writer\<close>

lemma rank_step_alpha: "(i + 1) mod 4 = 0 \<Longrightarrow> (i + 1) - (i + 1) div 4 = i - i div (4::nat)"
  by (simp add: div_Suc)

lemma rank_step_carrier:
  "(i + 1) mod 4 \<noteq> 0 \<Longrightarrow> (i + 1) - (i + 1) div 4 = (i - i div (4::nat)) + 1"
  by (simp add: div_Suc Suc_diff_le)

lemma carriers_before_eq: "carriers_before n = n - n div 4"
  unfolding carriers_before_def
proof (induction n)
  case 0
  show ?case by simp
next
  case (Suc n)
  show ?case
  proof (cases "(n + 1) mod 4 = 0")
    case True
    then show ?thesis using Suc rank_step_alpha [OF True] by simp
  next
    case False
    then show ?thesis using Suc rank_step_carrier [OF False] by simp
  qed
qed

lemma non_alpha_bytes_wf: "canvas_wf c \<Longrightarrow> non_alpha_bytes c = 3 * (cv_width c * cv_height c)"
  by (simp add: non_alpha_bytes_def carriers_before_eq canvas_wf_def)

lemma available_bits_wf:
  "canvas_wf c \<Longrightarrow> (length (cv_data c) * 3) div 4 = non_alpha_bytes c"
  by (simp add: non_alpha_bytes_def carriers_before_eq canvas_wf_def)

lemma lsb_only: "(((d::byte) AND 0xfe) OR (x AND 1)) AND 0xfe = d AND 0xfe"
  by (rule bit_word_eqI) (auto simp: bit_simps)

lemma length_lsb_write: "length (lsb_write bytes req ds i bi) = length ds"
  by (induction ds arbitrary: i bi) (simp_all add: Let_def)

lemma lsb_write_high_bits:
  "k < length ds \<Longrightarrow> (lsb_write bytes req ds i bi ! k) AND 0xfe = (ds ! k) AND 0xfe"
proof (induction ds arbitrary: i bi k)
  case Nil
  then show ?case by simp
next
  case (Cons d ds)
  then show ?case by (cases k) (simp_all add: Let_def lsb_only)
qed

lemma lsb_write_alpha:
  "k < length ds \<Longrightarrow> (i + k + 1) mod 4 = 0 \<Longrightarrow> lsb_write bytes req ds i bi ! k = ds ! k"
proof (induction ds arbitrary: i bi k)
  case Nil
  then show ?case by simp
next
  case (Cons d ds)
  then show ?case by (cases k) (simp_all add: Let_def)
qed

lemma lsb_write_beyond:
  "k < length ds \<Longrightarrow> bi = i - i div 4 \<Longrightarrow> req \<le> (i + k) - (i + k) div 4 \<Longrightarrow>
   lsb_write bytes req ds i bi ! k = ds ! k"
proof (induction ds arbitrary: i bi k)
  case Nil
  then show ?case by simp
next
  case (Cons d ds)
  show ?case
  proof (cases k)
    case 0
    with Cons.prems show ?thesis by simp
  next
    case (Suc k')
    show ?thesis
    proof (cases "bi < req")
      case False
      then show ?thesis by simp
    next
      case True
      have k': "k' < length ds" using Cons.prems Suc by simp
      have r: "req \<le> (i + 1 + k') - (i + 1 + k') div 4" using Cons.prems Suc by simp
      show ?thesis
      proof (cases "(i + 1) mod 4 = 0")
        case a: True
        have "bi = (i + 1) - (i + 1) div 4"
          using Cons.prems(2) rank_step_alpha [OF a] by simp
        from Cons.IH [OF k' this r] show ?thesis using True a Suc by simp
      next
        case a: False
        have "bi + 1 = (i + 1) - (i + 1) div 4"
          using Cons.prems(2) rank_step_carrier [OF a] by simp
        from Cons.IH [OF k' this r] show ?thesis using True a Suc by (simp add: Let_def)
      qed
    qed
  qed
qed

lemma embedBytesAsLsb_ok:
  "cv_ctx c \<Longrightarrow> length bytes * 8 \<le> (length (cv_data c) * 3) div 4 \<Longrightarrow>
   embedBytesAsLsb c bytes =
     Inr (c\<lparr>cv_data := lsb_write bytes (length bytes * 8) (cv_data c) 0 0\<rparr>)"
  by (simp add: embedBytesAsLsb_def Let_def)

text \<open>Claim C10. When the byte sequence fits (and the canvas gives a 2D context), the
  write succeeds, leaves width, height and the number of image bytes as they were, keeps
  the seven high bits of every image byte, leaves every alpha byte (each fourth byte) as
  it was, and leaves every byte as it was whose number of preceding carrier bytes is at
  least \<open>8 * |bytes|\<close>.\<close>

theorem embedBytesAsLsb_frame:
  assumes "cv_ctx c" and "length bytes * 8 \<le> (length (cv_data c) * 3) div 4"
  shows "\<exists>c'. embedBytesAsLsb c bytes = Inr c' \<and>
           cv_width c' = cv_width c \<and> cv_height c' = cv_height c \<and>
           length (cv_data c') = length (cv_data c) \<and>
           (\<forall>i < length (cv_data c).
              (cv_data c' ! i) AND 0xfe = (cv_data c ! i) AND 0xfe \<and>
              ((i + 1) mod 4 = 0 \<longrightarrow> cv_data c' ! i = cv_data c ! i) \<and>
              (8 * length bytes \<le> carriers_before i \<longrightarrow> cv_data c' ! i = cv_data c ! i))"
proof -
  let ?d = "lsb_write bytes (length bytes * 8) (cv_data c) 0 0"
  have hi: "\<And>i. i < length (cv_data c) \<Longrightarrow> (?d ! i) AND 0xfe = (cv_data c ! i) AND 0xfe"
    by (rule lsb_write_high_bits)
  have al: "\<And>i. i < length (cv_data c) \<Longrightarrow> (i + 1) mod 4 = 0 \<Longrightarrow> ?d ! i = cv_data c ! i"
    by (rule lsb_write_alpha) simp_all
  have be: "\<And>i. i < length (cv_data c) \<Longrightarrow> 8 * length bytes \<le> carriers_before i \<Longrightarrow>
              ?d ! i = cv_data c ! i"
    by (rule lsb_write_beyond) (simp_all add: carriers_before_eq mult.commute)
  show ?thesis
    using hi al be by (simp add: embedBytesAsLsb_ok [OF assms] length_lsb_write)
qed

theorem embedBytesAsLsb_frame_witness:
  "\<exists>c'. embedBytesAsLsb
          \<lparr>cv_width = 3, cv_height = 1, cv_data = [255, 6, 7, 9, 1, 1, 1, 9, 4, 4, 4, 9],
           cv_ctx = True\<rparr> [0xA5] = Inr c' \<and>
        cv_data c' = [255, 6, 7, 9, 0, 0, 1, 9, 4, 5, 4, 9]"
  using embedBytesAsLsb_frame
    [of "\<lparr>cv_width = 3, cv_height = 1, cv_data = [255, 6, 7, 9, 1, 1, 1, 9, 4, 4, 4, 9],
          cv_ctx = True\<rparr>" "[0xA5]"]
  by (simp add: embedBytesAsLsb_def byte_at_def)

text \<open>Claim C7, as the code has it. A frame of \<open>|frame|\<close> bytes needs \<open>8 * 3 * |frame|\<close>
  bits, one per non-alpha byte of the image (three per pixel). On a well-formed canvas
  with a 2D context the write fails, with the capacity error, exactly when the needed
  bits exceed the number of non-alpha bytes; otherwise it succeeds.\<close>

theorem lsb_capacity_check:
  assumes "cv_ctx c" and "canvas_wf c"
  shows "(if 8 * 3 * length frame > non_alpha_bytes c
          then embedBytesAsLsb c (withRepetition frame) =
                 Inl (PayloadExceedsCapacity (8 * 3 * length frame) (non_alpha_bytes c))
          else \<exists>c'. embedBytesAsLsb c (withRepetition frame) = Inr c') \<and>
         non_alpha_bytes c = 3 * (cv_width c * cv_height c)"
  using assms
  by (simp add: embedBytesAsLsb_def Let_def available_bits_wf length_withRepetition
      non_alpha_bytes_wf)

theorem lsb_capacity_check_witness:
  "embedBytesAsLsb \<lparr>cv_width = 10, cv_height = 10, cv_data = replicate 400 0, cv_ctx = True\<rparr>
     (withRepetition (replicate 22 0)) = Inl (PayloadExceedsCapacity 528 300)"
  using lsb_capacity_check
    [of "\<lparr>cv_width = 10, cv_height = 10, cv_data = replicate 400 0, cv_ctx = True\<rparr>"
        "replicate 22 0"]
  by (simp add: canvas_wf_def non_alpha_bytes_def carriers_before_eq)

text \<open>Claim C7 as stated compares the needed bits with three times the number of
  non-alpha bytes. On a 10 x 10 image (300 non-alpha bytes) a 22-byte frame needs 528
  bits, which is within \<open>3 * 300\<close>, and yet the write fails with the capacity error.\<close>

theorem lsb_capacity_three_times_counterexample:
  "8 * 3 * length (replicate 22 (0 :: byte)) \<le>
     3 * non_alpha_bytes \<lparr>cv_width = 10, cv_height = 10, cv_data = replicate 400 0, cv_ctx = True\<rparr> \<and>
   embedBytesAsLsb \<lparr>cv_width = 10, cv_height = 10, cv_data = replicate 400 0, cv_ctx = True\<rparr>
     (withRepetition (replicate 22 0)) = Inl (PayloadExceedsCapacity 528 300)"
  by (simp add: embedBytesAsLsb_def Let_def length_withRepetition non_alpha_bytes_def
      carriers_before_eq)

section \<open>Committing a version: the chain and the snapshot\<close>

declare lsb_write.simps [simp del]

lemma utf8_char_ascii: "(of_char c :: nat) < 128 \<Longrightarrow> utf8_char c = [of_nat (of_char c)]"
  by (simp add: utf8_char_def)

lemma length_utf8_ascii: "list_all (\<lambda>c. (of_char c :: nat) < 128) s \<Longrightarrow> length (utf8_encode s) = length s"
  by (induction s) (simp_all add: utf8_encode_def utf8_char_ascii)

lemma length_be32: "length (be32 x) = 4" by (simp add: be32_def)
lemma length_magic: "length LSB_MAGIC = 7" "length LSB_END_MARKER = 7"
  by (simp_all add: LSB_MAGIC_def LSB_END_MARKER_def utf8_encode_def utf8_char_def)

lemma length_framePayload: "length (framePayload ext p) =
   22 + length (ext_deflate ext (utf8_encode (JSON_stringify (ext_num_str ext) (payload_json p))))"
  by (simp add: framePayload_def Let_def length_be32 length_magic)

lemma handleCommit_Committed:
  assumes "handleCommit ext w = (Committed, w')"
  shows "\<exists>session canvas currentHash snap sg url.
    wf_session w = Some session \<and>
    wf_canvas w = Some canvas \<and>
    (history (ss_payload session) = [] \<or> wf_editLog w \<noteq> []) \<and>
    ext_canvas_hash ext canvas = Inr currentHash \<and>
    map_sum id Some (ext_createSnapshot ext canvas) = Inr snap \<and>
    wf_session w' = Some (session\<lparr>ss_payload :=
        \<lparr>chain_id = chain_id (ss_payload session),
         history = history (ss_payload session) @ [(newEntry ext session w currentHash snap)\<lparr>signature := sg\<rparr>],
         dct_metadata = None\<rparr>,
        ss_currentImageSrc := url\<rparr>)"
proof -
  note d = handleCommit_def Let_def commit_failed_def
  from assms obtain session where s: "wf_session w = Some session"
    by (cases "wf_session w") (simp_all add: d)
  from assms obtain canvas where c: "wf_canvas w = Some canvas"
    by (cases "wf_canvas w") (simp_all add: d s)
  have g: "history (ss_payload session) = [] \<or> wf_editLog w \<noteq> []"
    using assms by (auto simp: d s c)
  have g1: "(history (ss_payload session) \<noteq> [] \<and> wf_editLog w = []) = False"
    and g2: "(history (ss_payload session) = [] \<or> wf_editLog w \<noteq> []) = True"
    using g by auto
  note d = d g1 g2
  from assms obtain currentHash where h: "ext_canvas_hash ext canvas = Inr currentHash"
    by (cases "ext_canvas_hash ext canvas") (simp_all add: d s c)
  from assms obtain snap where sn: "map_sum id Some (ext_createSnapshot ext canvas) = Inr snap"
    by (cases "ext_createSnapshot ext canvas") (simp_all add: d s c h)
  let ?entry = "newEntry ext session w currentHash snap"
  from assms obtain sg where sg: "ext_signPayload ext (getPayloadHeader (ext_num_str ext) (unsigned_entry_json ?entry))
       (privateKeyPem (ss_keys session)) (wf_sigScheme w) = Inr sg"
    by (cases "ext_signPayload ext (getPayloadHeader (ext_num_str ext) (unsigned_entry_json ?entry))
       (privateKeyPem (ss_keys session)) (wf_sigScheme w)") (simp_all add: d s c h sn)
  let ?p = "\<lparr>chain_id = chain_id (ss_payload session),
         history = history (ss_payload session) @ [?entry\<lparr>signature := sg\<rparr>],
         dct_metadata = None\<rparr>"
  from assms obtain embedded where e: "embedPayload ext canvas ?p = Inr embedded"
    by (cases "embedPayload ext canvas ?p") (simp_all add: d s c h sn sg)
  from assms obtain reloaded where r: "ext_loadImageIntoCanvas ext (ext_toDataURL ext embedded) embedded = Inr reloaded"
    by (cases "ext_loadImageIntoCanvas ext (ext_toDataURL ext embedded) embedded") (simp_all add: d s c h sn sg e)
  from assms have "wf_session w' = Some (session\<lparr>ss_payload := ?p, ss_currentImageSrc := ext_toDataURL ext embedded\<rparr>)"
    by (auto simp: d s c h sn sg e r)
  with s c g h sn show ?thesis by blast
qed

lemma chain_invariants_snoc:
  assumes "chain_invariants h"
    and "version e = (if h = [] then 1 else version (last h) + 1)"
    and "parent_hash e = (if h = [] then None else Some (sha256 (last h)))"
  shows "chain_invariants (h @ [e])"
proof -
  have I1: "chain_I1 (h @ [e])"
  proof (cases h)
    case Nil
    with assms(2,3) show ?thesis by (simp add: chain_I1_def)
  next
    case (Cons x xs)
    with assms(1) show ?thesis by (simp add: chain_invariants_def chain_I1_def)
  qed
  have I2: "chain_I2 (h @ [e])"
    unfolding chain_I2_def
  proof (intro allI impI)
    fix i assume i: "0 < i \<and> i < length (h @ [e])"
    show "version ((h @ [e]) ! i) = version ((h @ [e]) ! (i - 1)) + 1"
    proof (cases "i < length h")
      case True
      with i have "version (h ! i) = version (h ! (i - 1)) + 1"
        using assms(1) by (simp add: chain_invariants_def chain_I2_def)
      moreover have "i - 1 < length h" using True by simp
      ultimately show ?thesis using True by (simp add: nth_append)
    next
      case False
      with i have il: "i = length h" by simp
      with i have ne: "h \<noteq> []" by auto
      with assms(2) have "version e = version (last h) + 1" by simp
      with il ne show ?thesis by (simp add: nth_append last_conv_nth)
    qed
  qed
  have I3: "chain_I3 (h @ [e])"
    unfolding chain_I3_def
  proof (intro allI impI)
    fix i assume i: "0 < i \<and> i < length (h @ [e])"
    show "parent_hash ((h @ [e]) ! i) = Some (sha256 ((h @ [e]) ! (i - 1)))"
    proof (cases "i < length h")
      case True
      with i have "parent_hash (h ! i) = Some (sha256 (h ! (i - 1)))"
        using assms(1) by (simp add: chain_invariants_def chain_I3_def)
      moreover have "i - 1 < length h" using True by simp
      ultimately show ?thesis using True by (simp add: nth_append)
    next
      case False
      with i have il: "i = length h" by simp
      with i have ne: "h \<noteq> []" by auto
      with assms(3) have "parent_hash e = Some (sha256 (last h))" by simp
      with il ne show ?thesis by (simp add: nth_append last_conv_nth)
    qed
  qed
  show ?thesis using I1 I2 I3 by (simp add: chain_invariants_def)
qed

text \<open>Claim C2. From a session whose history satisfies the chain invariants, a
  successful commit appends exactly one entry, whose version is the last version plus one
  (1 on an empty history) and whose parent hash is the hash of the last entry (absent on
  an empty history); the earlier entries and the chain id are unchanged, and the new
  history satisfies the chain invariants again.\<close>

theorem commit_appends_one_entry:
  assumes "wf_session w = Some session"
    and "chain_invariants (history (ss_payload session))"
    and "handleCommit ext w = (Committed, w')"
  shows "\<exists>session' e.
           wf_session w' = Some session' \<and>
           history (ss_payload session') = history (ss_payload session) @ [e] \<and>
           version e = (if history (ss_payload session) = [] then 1
                        else version (last (history (ss_payload session))) + 1) \<and>
           parent_hash e = (if history (ss_payload session) = [] then None
                            else Some (sha256 (last (history (ss_payload session))))) \<and>
           chain_id (ss_payload session') = chain_id (ss_payload session) \<and>
           chain_invariants (history (ss_payload session'))"
proof -
  from handleCommit_Committed [OF assms(3)] obtain s canvas currentHash snap sg url where
    s: "wf_session w = Some s" and
    w': "wf_session w' = Some (s\<lparr>ss_payload :=
        \<lparr>chain_id = chain_id (ss_payload s),
         history = history (ss_payload s) @ [(newEntry ext s w currentHash snap)\<lparr>signature := sg\<rparr>],
         dct_metadata = None\<rparr>,
        ss_currentImageSrc := url\<rparr>)"
    by blast
  from s assms(1) have [simp]: "s = session" by simp
  let ?e = "(newEntry ext session w currentHash snap)\<lparr>signature := sg\<rparr>"
  have v: "version ?e = (if history (ss_payload session) = [] then 1
                        else version (last (history (ss_payload session))) + 1)"
    by (simp add: newEntry_def Let_def)
  have ph: "parent_hash ?e = (if history (ss_payload session) = [] then None
                            else Some (sha256 (last (history (ss_payload session)))))"
    by (simp add: newEntry_def Let_def)
  have inv: "chain_invariants (history (ss_payload session) @ [?e])"
    by (rule chain_invariants_snoc [OF assms(2) v ph])
  let ?s' = "session\<lparr>ss_payload :=
        \<lparr>chain_id = chain_id (ss_payload session),
         history = history (ss_payload session) @ [?e], dct_metadata = None\<rparr>,
        ss_currentImageSrc := url\<rparr>"
  have w'': "wf_session w' = Some ?s'" using w' by simp
  have h': "history (ss_payload ?s') = history (ss_payload session) @ [?e]"
    and c': "chain_id (ss_payload ?s') = chain_id (ss_payload session)"
    by simp_all
  show ?thesis
  proof (intro exI conjI)
    show "wf_session w' = Some ?s'" by (rule w'')
    show "history (ss_payload ?s') = history (ss_payload session) @ [?e]" by (rule h')
    show "version ?e = (if history (ss_payload session) = [] then 1
                        else version (last (history (ss_payload session))) + 1)" by (rule v)
    show "parent_hash ?e = (if history (ss_payload session) = [] then None
                            else Some (sha256 (last (history (ss_payload session)))))" by (rule ph)
    show "chain_id (ss_payload ?s') = chain_id (ss_payload session)" by (rule c')
    show "chain_invariants (history (ss_payload ?s'))" using inv by (simp only: h')
  qed
qed

text \<open>Claim C9, as the code has it. \<^verbatim>\<open>handleCommit\<close> creates a snapshot when the history
  is empty or the edit log is non-empty, whatever the operations in the log are, and it
  refuses an empty edit log on a non-empty history: every committed entry carries a
  snapshot, and it is the initial version or has a non-empty edit log.\<close>

theorem committed_entry_has_snapshot:
  assumes "wf_session w = Some session"
    and "handleCommit ext w = (Committed, w')"
  shows "\<exists>session' e.
           wf_session w' = Some session' \<and>
           history (ss_payload session') = history (ss_payload session) @ [e] \<and>
           edit_log e = wf_editLog w \<and>
           snapshot e \<noteq> None \<and> (version e = 1 \<or> edit_log e \<noteq> [])"
proof -
  from handleCommit_Committed [OF assms(2)] obtain s canvas currentHash snap sg url where
    s: "wf_session w = Some s" and
    g: "history (ss_payload s) = [] \<or> wf_editLog w \<noteq> []" and
    sn: "map_sum id Some (ext_createSnapshot ext canvas) = Inr snap" and
    w': "wf_session w' = Some (s\<lparr>ss_payload :=
        \<lparr>chain_id = chain_id (ss_payload s),
         history = history (ss_payload s) @ [(newEntry ext s w currentHash snap)\<lparr>signature := sg\<rparr>],
         dct_metadata = None\<rparr>,
        ss_currentImageSrc := url\<rparr>)"
    by blast
  from s assms(1) have [simp]: "s = session" by simp
  let ?e = "(newEntry ext session w currentHash snap)\<lparr>signature := sg\<rparr>"
  let ?s' = "session\<lparr>ss_payload :=
        \<lparr>chain_id = chain_id (ss_payload session),
         history = history (ss_payload session) @ [?e], dct_metadata = None\<rparr>,
        ss_currentImageSrc := url\<rparr>"
  have w'': "wf_session w' = Some ?s'" using w' by simp
  have h': "history (ss_payload ?s') = history (ss_payload session) @ [?e]"
    by simp
  have v: "version ?e = 1 \<or> edit_log ?e \<noteq> []"
    using g by (auto simp: newEntry_def Let_def)
  have "snap \<noteq> None"
    using sn by (cases "ext_createSnapshot ext canvas") auto
  then have sp: "snapshot ?e \<noteq> None" and el: "edit_log ?e = wf_editLog w"
    by (simp_all add: newEntry_def Let_def)
  show ?thesis
  proof (intro exI conjI)
    show "wf_session w' = Some ?s'" by (rule w'')
    show "history (ss_payload ?s') = history (ss_payload session) @ [?e]" by (rule h')
    show "edit_log ?e = wf_editLog w" by (rule el)
    show "snapshot ?e \<noteq> None" by (rule sp)
    show "version ?e = 1 \<or> edit_log ?e \<noteq> []" by (rule v)
  qed
qed


lemmas sample_defs = newEntry_def sample_externals_def sample_session_def sample_workflow_def
  payload_json_def sample_entry_def edit_json_def entry_json_def unsigned_entry_json_def
  js_spread_def js_set_def snapshot_json_def sig_scheme_text_def is_array_index_def is_digit_def
  quote_def quote_char_def integer_text_def

lemma sample_json_length:
  "length (utf8_encode (JSON_stringify integer_text (payload_json sample_committed_payload))) \<le> 1000"
  apply (subst length_utf8_ascii)
   apply (simp add: sample_committed_payload_def sample_defs)
  apply (simp add: sample_committed_payload_def sample_defs)
  done

lemma sample_embed:
  "embedPayload sample_externals sample_canvas sample_committed_payload =
     Inr (sample_canvas\<lparr>cv_data :=
       lsb_write (withRepetition (framePayload sample_externals sample_committed_payload))
        (length (withRepetition (framePayload sample_externals sample_committed_payload)) * 8)
        (cv_data sample_canvas) 0 0\<rparr>)"
proof -
  have d: "dct_stage sample_externals sample_canvas sample_committed_payload = sample_canvas"
    by (simp add: dct_stage_def sample_externals_def)
  have "length (framePayload sample_externals sample_committed_payload) \<le> 1022"
    using sample_json_length by (simp add: length_framePayload sample_externals_def)
  then have "length (withRepetition (framePayload sample_externals sample_committed_payload)) * 8
      \<le> (length (cv_data sample_canvas) * 3) div 4"
    by (simp add: length_withRepetition sample_canvas_def)
  moreover have "cv_ctx sample_canvas" by (simp add: sample_canvas_def)
  ultimately show ?thesis
    unfolding embedPayload_def Let_def d by (rule embedBytesAsLsb_ok [rotated])
qed

lemma sample_commit:
  "fst (handleCommit sample_externals sample_workflow) = Committed \<and>
   map_option ss_payload (wf_session (snd (handleCommit sample_externals sample_workflow))) =
     Some sample_committed_payload"
proof -
  have x: "ext_canvas_hash sample_externals = (\<lambda>c. Inr ''c0ffee'')"
     "ext_createSnapshot sample_externals = (\<lambda>c. Inr \<lparr>sn_w = 160, sn_h = 160, sn_bytes_b64 = ''UklGRg==''\<rparr>)"
     "ext_signPayload sample_externals = (\<lambda>header key scheme. Inr ''c2ln'')"
     "ext_loadImageIntoCanvas sample_externals = (\<lambda>url c. Inr c)"
    by (simp_all add: sample_externals_def)
  have s: "wf_session sample_workflow = Some sample_session"
     "wf_canvas sample_workflow = Some sample_canvas"
     "wf_editLog sample_workflow = [Brightness 2]"
     "history (ss_payload sample_session) = [sample_entry]"
     "chain_id (ss_payload sample_session) = ''c0de''"
    by (simp_all add: sample_workflow_def sample_session_def)
  have e: "embedPayload sample_externals sample_canvas
     \<lparr>chain_id = ''c0de'', history = [sample_entry] @
        [(newEntry sample_externals sample_session sample_workflow ''c0ffee''
            (Some \<lparr>sn_w = 160, sn_h = 160, sn_bytes_b64 = ''UklGRg==''\<rparr>))\<lparr>signature := ''c2ln''\<rparr>],
       dct_metadata = None\<rparr> = Inr (sample_canvas\<lparr>cv_data :=
       lsb_write (withRepetition (framePayload sample_externals sample_committed_payload))
        (length (withRepetition (framePayload sample_externals sample_committed_payload)) * 8)
        (cv_data sample_canvas) 0 0\<rparr>)"
    using sample_embed by (simp add: sample_committed_payload_def)
  show ?thesis
    unfolding handleCommit_def Let_def s x option.case
    by (simp add: e sample_committed_payload_def del: append.simps)
qed


lemma sample_chain_invariants: "chain_invariants (history (ss_payload sample_session))"
  by (auto simp: chain_invariants_def chain_I1_def chain_I2_def chain_I3_def sample_session_def
      sample_entry_def)

lemma sample_commit_pair:
  "handleCommit sample_externals sample_workflow =
     (Committed, snd (handleCommit sample_externals sample_workflow))"
  using sample_commit by (simp add: prod_eq_iff)

theorem commit_appends_one_entry_witness:
  "wf_session sample_workflow = Some sample_session \<and>
   chain_invariants (history (ss_payload sample_session)) \<and>
   fst (handleCommit sample_externals sample_workflow) = Committed \<and>
   (\<exists>session' e.
      wf_session (snd (handleCommit sample_externals sample_workflow)) = Some session' \<and>
      history (ss_payload session') = [sample_entry, e] \<and>
      version e = 2 \<and> parent_hash e = Some ''aa11'' \<and>
      chain_id (ss_payload session') = ''c0de'' \<and>
      chain_invariants (history (ss_payload session')))"
proof -
  have h1: "wf_session sample_workflow = Some sample_session"
    by (simp add: sample_workflow_def)
  from commit_appends_one_entry [OF h1 sample_chain_invariants sample_commit_pair]
  obtain session' e where
    "wf_session (snd (handleCommit sample_externals sample_workflow)) = Some session'"
    "history (ss_payload session') = history (ss_payload sample_session) @ [e]"
    "version e = (if history (ss_payload sample_session) = [] then 1
                  else version (last (history (ss_payload sample_session))) + 1)"
    "parent_hash e = (if history (ss_payload sample_session) = [] then None
                      else Some (sha256 (last (history (ss_payload sample_session)))))"
    "chain_id (ss_payload session') = chain_id (ss_payload sample_session)"
    "chain_invariants (history (ss_payload session'))"
    by blast
  then have "wf_session (snd (handleCommit sample_externals sample_workflow)) = Some session' \<and>
      history (ss_payload session') = [sample_entry, e] \<and>
      version e = 2 \<and> parent_hash e = Some ''aa11'' \<and>
      chain_id (ss_payload session') = ''c0de'' \<and>
      chain_invariants (history (ss_payload session'))"
    by (simp add: sample_session_def sample_entry_def)
  then show ?thesis
    using h1 sample_chain_invariants sample_commit by blast
qed

theorem committed_entry_has_snapshot_witness:
  "wf_session sample_workflow = Some sample_session \<and>
   fst (handleCommit sample_externals sample_workflow) = Committed \<and>
   (\<exists>session' e.
      wf_session (snd (handleCommit sample_externals sample_workflow)) = Some session' \<and>
      history (ss_payload session') = [sample_entry, e] \<and>
      edit_log e = [Brightness 2] \<and> snapshot e \<noteq> None)"
proof -
  have h1: "wf_session sample_workflow = Some sample_session"
    by (simp add: sample_workflow_def)
  from committed_entry_has_snapshot [OF h1 sample_commit_pair]
  obtain session' e where
    "wf_session (snd (handleCommit sample_externals sample_workflow)) = Some session'"
    "history (ss_payload session') = history (ss_payload sample_session) @ [e]"
    "edit_log e = wf_editLog sample_workflow"
    "snapshot e \<noteq> None"
    by blast
  then have "wf_session (snd (handleCommit sample_externals sample_workflow)) = Some session' \<and>
      history (ss_payload session') = [sample_entry, e] \<and>
      edit_log e = [Brightness 2] \<and> snapshot e \<noteq> None"
    by (simp add: sample_session_def sample_workflow_def)
  then show ?thesis
    using h1 sample_commit by blast
qed

text \<open>Claim C9 as stated fails: committing the edit log \<open>[brightness 2]\<close> on a history
  of one entry gives version 2 with a snapshot, although the log has no destructive
  operation.\<close>

theorem snapshot_without_destructive_op_counterexample:
  "fst (handleCommit sample_externals sample_workflow) = Committed \<and>
   (let e = last (history (ss_payload (the (wf_session
                (snd (handleCommit sample_externals sample_workflow))))))
    in snapshot e \<noteq> None \<and> version e \<noteq> 1 \<and>
       \<not> (edit_log e \<noteq> [] \<and> list_ex destructive (edit_log e)))"
proof -
  from sample_commit obtain s where
    s: "wf_session (snd (handleCommit sample_externals sample_workflow)) = Some s"
    and p: "ss_payload s = sample_committed_payload"
    by auto
  have "snapshot (last (history sample_committed_payload)) \<noteq> None"
    "version (last (history sample_committed_payload)) \<noteq> 1"
    "\<not> list_ex destructive (edit_log (last (history sample_committed_payload)))"
    by (simp_all add: sample_committed_payload_def newEntry_def sample_session_def
        sample_workflow_def sample_entry_def destructive_def Let_def)
  then show ?thesis
    using sample_commit by (simp add: s p Let_def)
qed

section \<open>Verification of the chain links\<close>

lemma verify_entries_Cons:
  "verify_entries ext pk cur up n i prev (e # es) =
     (\<lparr>vi_entry = e, vi_verification = fst (verify_entry ext pk cur up (i + 1 = n) prev e)\<rparr> #
        fst (verify_entries ext pk cur up n (i + 1) (Some (sha256 e)) es),
      snd (verify_entry ext pk cur up (i + 1 = n) prev e) \<or>
        snd (verify_entries ext pk cur up n (i + 1) (Some (sha256 e)) es))"
  by (simp split: prod.splits)

declare verify_entries.simps(2) [simp del]

lemma verify_entries_length: "length (fst (verify_entries ext pk cur up n i prev es)) = length es"
  by (induction es arbitrary: i prev) (simp_all add: verify_entries_Cons)

lemma verify_entries_nth:
  "k < length es \<Longrightarrow>
   fst (verify_entries ext pk cur up n i prev es) ! k =
     \<lparr>vi_entry = es ! k,
      vi_verification = fst (verify_entry ext pk cur up (i + k + 1 = n)
         (if k = 0 then prev else Some (sha256 (es ! (k - 1)))) (es ! k))\<rparr>"
proof (induction es arbitrary: i prev k)
  case Nil
  then show ?case by simp
next
  case (Cons e es)
  show ?case
  proof (cases k)
    case 0
    then show ?thesis by (simp add: verify_entries_Cons)
  next
    case (Suc k')
    with Cons.prems have "k' < length es" by simp
    from Cons.IH [OF this, of "i + 1" "Some (sha256 e)"] Suc
    show ?thesis by (cases k') (simp_all add: verify_entries_Cons)
  qed
qed

lemma verify_entry_link:
  "isChainLinkValid (fst (verify_entry ext pk cur up l prev e)) = (parent_hash e = prev)"
  by (simp add: verify_entry_def Let_def)

lemma verify_entry_error:
  "vr_error (fst (verify_entry ext pk cur up l prev e)) =
     (let v = fst (verify_entry ext pk cur up l prev e);
          e0 = (if snd (verify_entry ext pk cur up l prev e)
                then Some ''Image hash does not match committed version.'' else None);
          e1 = (if \<not> isSignatureValid v then Some (or_empty e0 @ '' Signature invalid.'') else e0)
      in if \<not> isChainLinkValid v then Some (or_empty e1 @ '' Hash chain broken.'') else e1)"
  by (simp add: verify_entry_def Let_def)

text \<open>Claim C4, as the code has it. \<^verbatim>\<open>runVerification\<close> returns one result per entry, in
  order. The entry at position \<open>i\<close> is marked chain-link valid exactly when its parent
  hash is the hash of the entry before it (absent for the first entry); when it is marked
  invalid, its error text ends with the diagnostic \<^verbatim>\<open>Hash chain broken.\<close>, and when it is
  marked valid the error text, if any, speaks of the signature or the image hash only.
  Versions are not compared.\<close>

theorem verification_marks_parent_links:
  assumes "runVerification ext payload pk canvas up = Inr (results, hashMismatch)"
    and "i < length (history payload)"
  shows "length results = length (history payload) \<and>
         vi_entry (results ! i) = history payload ! i \<and>
         isChainLinkValid (vi_verification (results ! i)) = parent_link_ok (history payload) i \<and>
         (\<not> parent_link_ok (history payload) i \<longrightarrow>
            (\<exists>pre. vr_error (vi_verification (results ! i)) = Some (pre @ '' Hash chain broken.''))) \<and>
         (parent_link_ok (history payload) i \<longrightarrow>
            vr_error (vi_verification (results ! i)) \<in>
              {None, Some '' Signature invalid.'',
               Some ''Image hash does not match committed version.'',
               Some ''Image hash does not match committed version. Signature invalid.''})"
proof -
  from assms(1) have "\<exists>cur. verify_entries ext pk cur up (length (history payload)) 0 None
        (history payload) = (results, hashMismatch)"
    by (cases "case canvas of None \<Rightarrow> Inr None | Some c \<Rightarrow> map_sum id Some (ext_canvas_hash ext c)")
       (auto simp: runVerification_def)
  then obtain cur where "verify_entries ext pk cur up (length (history payload)) 0 None
        (history payload) = (results, hashMismatch)" ..
  then have
    r: "results = fst (verify_entries ext pk cur up (length (history payload)) 0 None (history payload))"
    by simp
  let ?prev = "if i = 0 then None else Some (sha256 (history payload ! (i - 1)))"
  let ?v = "verify_entry ext pk cur up (0 + i + 1 = length (history payload)) ?prev (history payload ! i)"
  have n: "results ! i = \<lparr>vi_entry = history payload ! i, vi_verification = fst ?v\<rparr>"
    unfolding r by (rule verify_entries_nth [OF assms(2)])
  have l: "isChainLinkValid (fst ?v) = parent_link_ok (history payload) i"
    by (simp add: verify_entry_link parent_link_ok_def)
  have e: "vr_error (fst ?v) =
     (let e0 = (if snd ?v then Some ''Image hash does not match committed version.'' else None);
          e1 = (if \<not> isSignatureValid (fst ?v) then Some (or_empty e0 @ '' Signature invalid.'') else e0)
      in if \<not> isChainLinkValid (fst ?v) then Some (or_empty e1 @ '' Hash chain broken.'') else e1)"
    using verify_entry_error [of ext pk cur up _ ?prev "history payload ! i"] by (simp add: Let_def)
  have 1: "length results = length (history payload)"
    unfolding r by (rule verify_entries_length)
  have 2: "\<not> parent_link_ok (history payload) i \<Longrightarrow>
            \<exists>pre. vr_error (fst ?v) = Some (pre @ '' Hash chain broken.'')"
    unfolding e l Let_def by simp
  have 3: "parent_link_ok (history payload) i \<Longrightarrow>
            vr_error (fst ?v) \<in>
              {None, Some '' Signature invalid.'',
               Some ''Image hash does not match committed version.'',
               Some ''Image hash does not match committed version. Signature invalid.''}"
    unfolding e l Let_def by (simp add: or_empty_def)
  show ?thesis
    using 1 2 3 l by (simp add: n)
qed


theorem verification_marks_parent_links_witness:
  "\<exists>results hashMismatch.
     runVerification sample_externals broken_link_payload ''PUBLIC'' None False =
       Inr (results, hashMismatch) \<and>
     1 < length (history broken_link_payload) \<and>
     length results = 2 \<and>
     \<not> isChainLinkValid (vi_verification (results ! 1)) \<and>
     (\<exists>pre. vr_error (vi_verification (results ! 1)) = Some (pre @ '' Hash chain broken.'')) \<and>
     isChainLinkValid (vi_verification (results ! 0))"
proof -
  obtain results hashMismatch where
    r: "runVerification sample_externals broken_link_payload ''PUBLIC'' None False =
          Inr (results, hashMismatch)"
    by (cases "verify_entries sample_externals ''PUBLIC'' None False
                 (length (history broken_link_payload)) 0 None (history broken_link_payload)")
       (simp add: runVerification_def)
  have l: "1 < length (history broken_link_payload)" "0 < length (history broken_link_payload)"
    by (simp_all add: broken_link_payload_def)
  have p: "\<not> parent_link_ok (history broken_link_payload) 1"
    "parent_link_ok (history broken_link_payload) 0"
    by (simp_all add: parent_link_ok_def broken_link_payload_def sample_entry_def)
  from verification_marks_parent_links [OF r l(1)] verification_marks_parent_links [OF r l(2)] p l
  have "length results = 2 \<and>
     \<not> isChainLinkValid (vi_verification (results ! 1)) \<and>
     (\<exists>pre. vr_error (vi_verification (results ! 1)) = Some (pre @ '' Hash chain broken.'')) \<and>
     isChainLinkValid (vi_verification (results ! 0))"
    by (simp add: broken_link_payload_def)
  with r l show ?thesis by blast
qed

text \<open>Claim C4 as stated fails for a violation of I2: in a history with versions 1 and 3
  and a correct parent hash, the second entry is marked chain-link valid and gets no
  diagnostic.\<close>

theorem version_gap_not_detected_counterexample:
  "\<not> version_link_ok (history skipped_version_payload) 1 \<and>
   (case runVerification sample_externals skipped_version_payload ''PUBLIC'' None False of
      Inl e \<Rightarrow> False
    | Inr r \<Rightarrow> isChainLinkValid (vi_verification (fst r ! 1)) \<and>
               vr_error (vi_verification (fst r ! 1)) = None)"
  by (simp add: version_link_ok_def skipped_version_payload_def sample_entry_def
      runVerification_def verify_entries_Cons verify_entry_def Let_def sample_externals_def)

section \<open>The rotation search\<close>

lemma normalize_default_rotations:
  "normalize_rotation 0 = 0" "normalize_rotation 90 = 90" "normalize_rotation 180 = 180"
  "normalize_rotation 270 = 270" "normalize_rotation (-90) = 270"
  "normalize_rotation (-180) = 180" "normalize_rotation (-270) = 90"
  by (simp_all add: normalize_rotation_def js_rem_def)

lemma default_rotation_order:
  "sort_key normalize_rotation DEFAULT_ROTATIONS = [0, 90, -270, 180, -180, 270, -90]"
  by (simp add: DEFAULT_ROTATIONS_def normalize_default_rotations)

lemma reported_rotation_throws: "reported_rotation rotation = Inl ReferenceError"
  by (simp add: reported_rotation_def normalizedRotation_outside_its_block_def)

lemma extraction_caught_rotation:
  "metadataRotation (extraction_caught ext st rotation e) = metadataRotation st"
  by (simp add: extraction_caught_def Let_def)

lemma remember_metadata_rotation:
  "case remember_metadata ext candidate details st rotation of
     Inl (st1, e) \<Rightarrow> metadataRotation st1 = metadataRotation st
   | Inr st2 \<Rightarrow> metadataRotation st2 = metadataRotation st"
  unfolding remember_metadata_def reported_rotation_throws Let_def
  by (cases "tryExtractDCT ext candidate") simp

lemma rotation_step_continues:
  "\<exists>st'. rotation_step ext baseCanvas st rotation = Inr st' \<and>
         metadataRotation st' = metadataRotation st"
proof (cases "if normalize_rotation rotation = 0 then Inr baseCanvas
              else ext_rotateCanvas ext baseCanvas rotation")
  case (Inl e)
  then show ?thesis by (simp add: rotation_step_def Let_def)
next
  case (Inr candidate)
  let ?details = "extractPayloadWithDetails ext candidate"
  show ?thesis
  proof (cases "case er_payload ?details of None \<Rightarrow> False | Some p \<Rightarrow> js_truthy p")
    case True
    with Inr show ?thesis
      by (simp add: rotation_step_def Let_def reported_rotation_throws extraction_caught_rotation)
  next
    case False
    have r: "rotation_step ext baseCanvas st rotation =
       (case remember_metadata ext candidate ?details st rotation of
          Inl (st1, e) \<Rightarrow> Inr (extraction_caught ext st1 rotation e)
        | Inr st2 \<Rightarrow>
            Inr (if lastCriticalMetadata st2 = None
                 then st2\<lparr>lastError := Some ''payload_not_found''\<rparr> else st2))"
      using Inr False by (simp add: rotation_step_def Let_def)
    show ?thesis
    proof (cases "remember_metadata ext candidate ?details st rotation")
      case (Inl a)
      then obtain st1 e where x: "remember_metadata ext candidate ?details st rotation = Inl (st1, e)"
        by (cases a) simp
      with remember_metadata_rotation [where ext = ext and candidate = candidate and details = "?details" and st = st and rotation = rotation]
      show ?thesis by (simp add: r extraction_caught_rotation)
    next
      case x: (Inr st2)
      with remember_metadata_rotation [where ext = ext and candidate = candidate and details = "?details" and st = st and rotation = rotation]
      show ?thesis by (simp add: r)
    qed
  qed
qed

lemma rotation_loop_continues:
  "\<exists>st'. rotation_loop ext baseCanvas st rotations = Inr st' \<and>
         metadataRotation st' = metadataRotation st"
proof (induction rotations arbitrary: st)
  case Nil
  show ?case by simp
next
  case (Cons r rs)
  from rotation_step_continues [of ext baseCanvas st r] obtain st1 where
    s: "rotation_step ext baseCanvas st r = Inr st1" "metadataRotation st1 = metadataRotation st"
    by blast
  from Cons [of st1] s show ?case by simp
qed

text \<open>Claim C8 says that the search returns full-payload success, with the rotation, at
  the first candidate whose LSB decoding yields a payload, and metadata-only with the
  earliest rotation that yielded DCT metadata. In the code both places that report a
  rotation name \<^verbatim>\<open>normalizedRotation\<close> outside the block that declares it; the exception
  is caught inside the loop, so the search goes through all candidates (for the default
  list in the order 0, 90, -270, 180, -180, 270, -90) and, whatever the image holds, ends
  without success, without a payload and without a rotation. It never raises.\<close>

theorem rotation_search_never_reports_payload:
  "rr_success (tryExtractWithRotations ext source rotations) = False \<and>
   rr_payload (tryExtractWithRotations ext source rotations) = None \<and>
   rr_rotation (tryExtractWithRotations ext source rotations) = None"
proof (cases "case source of CanvasSource c \<Rightarrow> Inr c | FileSource f \<Rightarrow> ext_renderCanvasFromImage ext f")
  case (Inl e)
  then show ?thesis by (simp add: tryExtractWithRotations_def)
next
  case (Inr baseCanvas)
  let ?st0 = "\<lparr>lastCriticalMetadata = None, metadataRotation = None, lastError = None,
                extractionErrors = []\<rparr>"
  from rotation_loop_continues [of ext baseCanvas ?st0 "sort_key normalize_rotation rotations"]
  obtain st where
    "rotation_loop ext baseCanvas ?st0 (sort_key normalize_rotation rotations) = Inr st"
    "metadataRotation st = None"
    by auto
  with Inr show ?thesis by (simp add: tryExtractWithRotations_def Let_def)
qed

section \<open>The layout of the LSB frame\<close>

lemma checksum32_acc:
  "foldl (\<lambda>sum b. sum + ucast b) (acc :: u32) (bytes :: byte list) =
     acc + of_nat (sum_list (map unat bytes))"
  by (induction bytes arbitrary: acc) (simp_all add: add.assoc)

lemma checksum32_sum: "unat (checksum32 bytes) = sum_list (map unat bytes) mod 2 ^ 32"
  by (simp add: checksum32_def checksum32_acc unat_of_nat)

lemma word_be32_parts:
  "word_be32 (ucast (drop_bit 24 x)) (ucast (drop_bit 16 x)) (ucast (drop_bit 8 x)) (ucast x) = (x :: u32)"
  unfolding word_be32_def
proof (rule bit_word_eqI)
  fix n assume "n < LENGTH(32)"
  then have n: "n < 32" by simp
  consider "n < 8" | "8 \<le> n" "n < 16" | "16 \<le> n" "n < 24" | "24 \<le> n" by linarith
  then show "bit (push_bit 24 (ucast (ucast (drop_bit 24 x) :: byte)) OR
                  push_bit 16 (ucast (ucast (drop_bit 16 x) :: byte)) OR
                  push_bit 8 (ucast (ucast (drop_bit 8 x) :: byte)) OR ucast (ucast x :: byte) :: u32) n
             = bit x n"
    using n by cases (auto simp: bit_simps)
qed

lemma word_be32_be32:
  "word_be32 (be32 x ! 0) (be32 x ! 1) (be32 x ! 2) (be32 x ! 3) = x"
  using word_be32_parts [of x] by (simp add: be32_def)

lemma magic_bytes:
  "LSB_MAGIC = [0x49, 0x43, 0x4C, 0x53, 0x42, 0x30, 0x31]"
  "LSB_END_MARKER = [0x49, 0x43, 0x45, 0x4E, 0x44, 0x30, 0x31]"
  by (simp_all add: LSB_MAGIC_def LSB_END_MARKER_def utf8_encode_def utf8_char_def)

text \<open>Claim C5, as the code has it. The frame is the magic \<^verbatim>\<open>ICLSB01\<close> (7 bytes), the
  length of the compressed payload as four big-endian bytes (the length modulo \<open>2^32\<close>),
  the checksum as four big-endian bytes, which is the sum of the compressed bytes modulo
  \<open>2^32\<close>, the compressed payload and the end marker \<^verbatim>\<open>ICEND01\<close> (7 bytes). The
  compressed payload is the compressor's output on the UTF-8 bytes of
  \<^verbatim>\<open>JSON.stringify(payload)\<close>: the payload object as it is, with its keys in object order
  and with its DCT metadata field when it has one.\<close>

theorem framePayload_layout:
  "framePayload ext payload =
     LSB_MAGIC @
     be32 (of_nat (length (ext_deflate ext (frame_json_bytes ext payload)))) @
     be32 (checksum32 (ext_deflate ext (frame_json_bytes ext payload))) @
     ext_deflate ext (frame_json_bytes ext payload) @
     LSB_END_MARKER \<and>
   LSB_MAGIC = utf8_encode ''ICLSB01'' \<and> length LSB_MAGIC = 7 \<and>
   LSB_END_MARKER = utf8_encode ''ICEND01'' \<and> length LSB_END_MARKER = 7 \<and>
   length (be32 x) = 4 \<and> word_be32 (be32 x ! 0) (be32 x ! 1) (be32 x ! 2) (be32 x ! 3) = x \<and>
   unat (of_nat (length (ext_deflate ext (frame_json_bytes ext payload))) :: u32) =
     length (ext_deflate ext (frame_json_bytes ext payload)) mod 2 ^ 32 \<and>
   unat (checksum32 (ext_deflate ext (frame_json_bytes ext payload))) =
     sum_list (map unat (ext_deflate ext (frame_json_bytes ext payload))) mod 2 ^ 32 \<and>
   frame_json_bytes ext payload =
     utf8_encode (JSON_stringify (ext_num_str ext) (payload_json payload))"
proof -
  have 1: "framePayload ext payload =
     LSB_MAGIC @
     be32 (of_nat (length (ext_deflate ext (frame_json_bytes ext payload)))) @
     be32 (checksum32 (ext_deflate ext (frame_json_bytes ext payload))) @
     ext_deflate ext (frame_json_bytes ext payload) @
     LSB_END_MARKER"
    by (simp add: framePayload_def frame_json_bytes_def Let_def)
  have 2: "LSB_MAGIC = utf8_encode ''ICLSB01''" "LSB_END_MARKER = utf8_encode ''ICEND01''"
    by (simp_all add: LSB_MAGIC_def LSB_END_MARKER_def)
  have 3: "unat (of_nat (length (ext_deflate ext (frame_json_bytes ext payload))) :: u32) =
     length (ext_deflate ext (frame_json_bytes ext payload)) mod 2 ^ 32"
    by (simp add: unat_of_nat)
  have 4: "frame_json_bytes ext payload =
     utf8_encode (JSON_stringify (ext_num_str ext) (payload_json payload))"
    by (simp add: frame_json_bytes_def)
  from 1 2 length_magic length_be32 [of x] word_be32_be32 [of x] 3 checksum32_sum 4
  show ?thesis by blast
qed

lemmas json_eval = payload_json_def sample_entry_def edit_json_def entry_json_def
  unsigned_entry_json_def js_spread_def js_set_def snapshot_json_def sig_scheme_text_def
  is_array_index_def is_digit_def quote_def quote_char_def integer_text_def canonical_object_def
  less_char_def less_eq_char_def utf8_encode_def utf8_char_def

text \<open>Claim C5 as stated fails: for the payload of the sample session (one entry, no DCT
  metadata) the bytes that are compressed are not the canonical serialization (the keys
  of the entry are in creation order, \<^verbatim>\<open>version\<close> first, not sorted), and the frames
  differ under a compressor that stores its input.\<close>

theorem frame_not_canonical_counterexample:
  "frame_json_bytes sample_externals (ss_payload sample_session) \<noteq>
     spec_json_bytes sample_externals (ss_payload sample_session) \<and>
   framePayload sample_externals (ss_payload sample_session) \<noteq>
     spec_framePayload sample_externals (ss_payload sample_session)"
proof -
  have a: "frame_json_bytes sample_externals (ss_payload sample_session) \<noteq>
     spec_json_bytes sample_externals (ss_payload sample_session)"
    by (simp add: frame_json_bytes_def spec_json_bytes_def sample_externals_def sample_session_def
        json_eval)
  have "ext_deflate sample_externals = (\<lambda>bs. bs)" by (simp add: sample_externals_def)
  then show ?thesis
    using a by (simp add: framePayload_def spec_framePayload_def Let_def frame_json_bytes_def
        spec_json_bytes_def length_be32 append_eq_append_conv)
qed

end
